theory Spec2Isabelle
  imports Complex_Main "HOL-Library.AList" "HOL-Library.Word"
begin

section \<open>Python values and dictionaries\<close>

text \<open>
  The documents that AquaPulse moves between its generators, the document store and the
  HTTP handlers are Python dictionaries with string keys. A dictionary is modelled as an
  association list: Python keeps insertion order, an assignment to an existing key keeps
  the key's position, and an assignment to a new key appends it, which is what
  \<open>AList.update\<close> does.

  A Python \<open>float\<close> is modelled by the real number it denotes. Comparisons of a float
  with the integer thresholds 6, 7 and 8 are exact in Python, so they agree with the
  comparison of the denoted reals. Rounding to decimals (\<open>round(x, n)\<close>) is modelled on
  the denoted real and yields the decimal \<open>k / 10 ^ n\<close>; the float Python stores is the
  one nearest to that decimal, which lies on the same side of 6, 7 and 8.
  A sum or a product of floats is the float nearest to the exact result, which need not be
  the exact result: \<open>8.5 + (-0.4999999999999998)\<close> is \<open>8.0\<close>. The generators of
  sensor readings therefore take the machine's addition and multiplication as given
  (\<open>fadd\<close>, \<open>fmul\<close>). The sample rows of \<open>initialize_sample_data\<close> are constants on
  which the machine's results are the exact ones.
  An \<open>ObjectId\<close> is the number its twelve bytes encode, a \<open>datetime\<close> a point on a
  discrete time line.
\<close>

datatype pyval =
    PNone
  | PBool bool
  | PInt int
  | PFloat real
  | PStr string
  | PBytes string
  | PObjectId nat
  | PDateTime nat
  | PList "pyval list"
  | PDict "(string \<times> pyval) list"

type_synonym pydict = "(string \<times> pyval) list"

datatype py_error =
    KeyError string
  | TypeError
  | ValueError
  | AttributeError
  | DuplicateKeyError
  | ServiceError string

text \<open>\<open>d.get(k, default)\<close>, \<open>d[k]\<close>, \<open>d[k] = v\<close>, \<open>k in d\<close> and \<open>del d[k]\<close>.\<close>

definition dict_get :: "pydict \<Rightarrow> string \<Rightarrow> pyval \<Rightarrow> pyval" where
  "dict_get d k dflt = (case map_of d k of None \<Rightarrow> dflt | Some v \<Rightarrow> v)"

definition dict_item :: "pydict \<Rightarrow> string \<Rightarrow> py_error + pyval" where
  "dict_item d k = (case map_of d k of None \<Rightarrow> Inl (KeyError k) | Some v \<Rightarrow> Inr v)"

definition dict_set :: "pydict \<Rightarrow> string \<Rightarrow> pyval \<Rightarrow> pydict" where
  "dict_set d k v = AList.update k v d"

definition dict_has :: "pydict \<Rightarrow> string \<Rightarrow> bool" where
  "dict_has d k = (map_of d k \<noteq> None)"

definition dict_del :: "pydict \<Rightarrow> string \<Rightarrow> pydict" where
  "dict_del d k = AList.delete k d"

text \<open>Truth value testing: \<open>None\<close>, \<open>False\<close>, zero, and empty strings and containers are false.\<close>

fun truthy :: "pyval \<Rightarrow> bool" where
  "truthy PNone = False"
| "truthy (PBool b) = b"
| "truthy (PInt i) = (i \<noteq> 0)"
| "truthy (PFloat r) = (r \<noteq> 0)"
| "truthy (PStr s) = (s \<noteq> [])"
| "truthy (PBytes s) = (s \<noteq> [])"
| "truthy (PObjectId h) = True"
| "truthy (PDateTime t) = True"
| "truthy (PList xs) = (xs \<noteq> [])"
| "truthy (PDict d) = (d \<noteq> [])"

text \<open>
  The number a value denotes in a comparison or a sum: \<open>bool\<close> is a subclass of \<open>int\<close>;
  every other type raises \<open>TypeError\<close> against a number.
\<close>

fun py_num :: "pyval \<Rightarrow> real option" where
  "py_num (PInt i) = Some (of_int i)"
| "py_num (PFloat r) = Some r"
| "py_num (PBool b) = Some (if b then 1 else 0)"
| "py_num _ = None"

definition py_gt :: "pyval \<Rightarrow> int \<Rightarrow> py_error + bool" where
  "py_gt v n = (case py_num v of None \<Rightarrow> Inl TypeError | Some r \<Rightarrow> Inr (r > of_int n))"

text \<open>\<open>round(x, n)\<close> rounds half to even; \<open>int(x)\<close> truncates towards zero.\<close>

definition round_half_even :: "real \<Rightarrow> int" where
  "round_half_even x =
     (let f = \<lfloor>x\<rfloor>; d = x - of_int f
      in if d < 1 / 2 then f else if d > 1 / 2 then f + 1 else if even f then f else f + 1)"

definition py_round :: "real \<Rightarrow> nat \<Rightarrow> real" where
  "py_round x n = of_int (round_half_even (x * 10 ^ n)) / 10 ^ n"

definition py_int :: "real \<Rightarrow> int" where
  "py_int x = (if x \<ge> 0 then \<lfloor>x\<rfloor> else \<lceil>x\<rceil>)"

text \<open>
  \<open>fadd F x y\<close> and \<open>fmul F x y\<close> are the floats that \<open>x + y\<close> and \<open>x * y\<close>
  evaluate to in Python for floats (or an integer and a float) \<open>x\<close> and \<open>y\<close>.
\<close>

record float_arith =
  fadd :: "real \<Rightarrow> real \<Rightarrow> real"
  fmul :: "real \<Rightarrow> real \<Rightarrow> real"

text \<open>Decimal formatting of a non-negative integer, and the format \<open>{i:03d}\<close>.\<close>

definition digit_char :: "nat \<Rightarrow> char" where
  "digit_char d = char_of (48 + d)"

fun dec_str :: "nat \<Rightarrow> string" where
  "dec_str n = (if n < 10 then [digit_char n] else dec_str (n div 10) @ [digit_char (n mod 10)])"

definition fmt03 :: "nat \<Rightarrow> string" where
  "fmt03 n = (let s = dec_str n in replicate (3 - length s) (CHR ''0'') @ s)"

section \<open>Sensor readings and their status\<close>

text \<open>
  \<open>seed_db\<close> (models.py) and \<open>_generate_dynamic_sensor_data\<close> (aws_services.py) derive
  the status with the same chain: \<open>status = "active"\<close>, then \<open>"critical"\<close> if the level
  is above 8, else \<open>"warning"\<close> if it is above 6.
\<close>

definition derive_status :: "real \<Rightarrow> string" where
  "derive_status pollution_level =
     (if pollution_level > 8 then ''critical''
      else if pollution_level > 6 then ''warning''
      else ''active'')"

text \<open>The two fields of a sensor document that the status rule relates.\<close>

definition sensor_level :: "pydict \<Rightarrow> pyval" where
  "sensor_level d = dict_get d ''pollution_level'' PNone"

definition sensor_status :: "pydict \<Rightarrow> pyval" where
  "sensor_status d = dict_get d ''status'' PNone"

text \<open>
  One iteration of the sensor loop of \<open>seed_db\<close>. The random draws of the iteration are
  its inputs: \<open>loc\<close> is the result of \<open>choice(sensor_locations)\<close>, \<open>d_level\<close> of
  \<open>uniform(2, 10)\<close>, \<open>d_lat\<close> and \<open>d_lng\<close> of \<open>uniform(-1, 1)\<close>, \<open>d_stamp\<close> is the ISO
  rendering of the back-dated timestamp, \<open>d_micro\<close> of \<open>randint(0, 500)\<close>, \<open>d_temp\<close> of
  \<open>uniform(-5, 15)\<close> and \<open>d_turb\<close> of \<open>randint(0, 50)\<close>.
\<close>

record seed_draws =
  d_level :: real
  d_lat :: real
  d_lng :: real
  d_stamp :: string
  d_micro :: int
  d_temp :: real
  d_turb :: int

definition seed_sensor ::
  "float_arith \<Rightarrow> nat \<Rightarrow> string \<times> real \<times> real \<Rightarrow> seed_draws \<Rightarrow> pydict" where
  "seed_sensor F i loc dr =
     (let pollution_level = py_round (d_level dr) 1;
          status = derive_status pollution_level
      in [(''id'', PStr (''sensor_'' @ fmt03 i)),
          (''location'', PStr (fst loc)),
          (''lat'', PFloat (py_round (fadd F (fst (snd loc)) (d_lat dr)) 4)),
          (''lng'', PFloat (py_round (fadd F (snd (snd loc)) (d_lng dr)) 4)),
          (''pollution_level'', PFloat pollution_level),
          (''status'', PStr status),
          (''timestamp'', PStr (d_stamp dr)),
          (''microplastics'',
             PInt (py_int (fadd F (fmul F pollution_level 1000) (of_int (d_micro dr))))),
          (''temperature'', PFloat (py_round (fadd F 15 (d_temp dr)) 1)),
          (''turbidity'',
             PFloat (py_round (fadd F (fmul F pollution_level 10) (of_int (d_turb dr))) 1))])"

text \<open>
  One iteration of the region loop of \<open>_generate_dynamic_sensor_data\<close>. \<open>g_level\<close> is the
  draw \<open>random.uniform(-1.0, 1.0)\<close> that line 131 adds to the region's base level as
  floats, \<open>g_lat\<close> and
  \<open>g_lng\<close> are the coordinates drawn in the region's ranges, \<open>g_temp\<close> is
  \<open>random.uniform(-10, 15)\<close>; \<open>timestamp\<close> is \<open>int(time.time())\<close>.
\<close>

record gen_draws =
  g_level :: real
  g_lat :: real
  g_lng :: real
  g_stamp :: string
  g_micro :: int
  g_temp :: real
  g_turb :: int

definition base_pollution :: "string \<Rightarrow> real" where
  "base_pollution name =
     (case map_of [(''Mediterranean Sea'', 85 / 10), (''Pacific Ocean'', 7),
                   (''Atlantic Ocean'', 55 / 10), (''Indian Ocean'', 6),
                   (''Arctic Ocean'', 3)] name
      of None \<Rightarrow> 5 | Some b \<Rightarrow> b)"

definition clamp_level :: "real \<Rightarrow> real" where
  "clamp_level x = max (1 / 10) (min 10 x)"

definition gen_sensor ::
  "float_arith \<Rightarrow> nat \<Rightarrow> nat \<Rightarrow> string \<Rightarrow> gen_draws \<Rightarrow> pydict" where
  "gen_sensor F timestamp i name dr =
     (let pollution_level = clamp_level (fadd F (base_pollution name) (g_level dr));
          status = derive_status pollution_level
      in [(''id'', PStr (''sensor_'' @ dec_str timestamp @ ''_'' @ fmt03 i)),
          (''location'', PStr name),
          (''lat'', PFloat (py_round (g_lat dr) 4)),
          (''lng'', PFloat (py_round (g_lng dr) 4)),
          (''pollution_level'', PFloat (py_round pollution_level 1)),
          (''status'', PStr status),
          (''timestamp'', PStr (g_stamp dr)),
          (''microalgae'',
             PInt (py_int (fadd F (fmul F pollution_level 1000) (of_int (g_micro dr))))),
          (''temperature'', PFloat (py_round (fadd F 20 (g_temp dr)) 1)),
          (''turbidity'',
             PFloat (py_round (fadd F (fmul F pollution_level 10) (of_int (g_turb dr))) 1))])"

text \<open>
  The sample rows of \<open>initialize_sample_data\<close>: location, latitude, longitude, pollution
  level and the status written in the source, and the dictionary built from row \<open>i\<close>.
  \<open>stamp i\<close> is \<open>datetime.now().isoformat()\<close> as row \<open>i\<close> reads it.
\<close>

definition sample_rows :: "(string \<times> real \<times> real \<times> real \<times> string) list" where
  "sample_rows =
     [(''Pacific Ocean'', 356762 / 10000, 1396503 / 10000, 72 / 10, ''active''),
      (''Atlantic Ocean'', 407128 / 10000, - (740060 / 10000), 58 / 10, ''active''),
      (''Mediterranean Sea'', 437696 / 10000, 112558 / 10000, 91 / 10, ''warning''),
      (''Indian Ocean'', - (338688 / 10000), 1512093 / 10000, 64 / 10, ''active''),
      (''Arctic Ocean'', 710489 / 10000, - (80173 / 10000), 32 / 10, ''active'')]"

fun sample_sensor :: "string \<Rightarrow> nat \<Rightarrow> string \<times> real \<times> real \<times> real \<times> string \<Rightarrow> pydict" where
  "sample_sensor stamp i (location, lat, lng, pollution_level, status) =
     [(''id'', PStr (''sensor_init_'' @ fmt03 i)),
      (''location'', PStr location),
      (''lat'', PFloat lat),
      (''lng'', PFloat lng),
      (''pollution_level'', PFloat pollution_level),
      (''status'', PStr status),
      (''timestamp'', PStr stamp),
      (''microplastics'', PInt (py_int (pollution_level * 1000))),
      (''temperature'', PFloat (20 + of_nat i * 2)),
      (''turbidity'', PFloat (pollution_level * 10))]"

definition sample_sensors :: "(nat \<Rightarrow> string) \<Rightarrow> pydict list" where
  "sample_sensors stamp =
     map (\<lambda>(i, row). sample_sensor (stamp i) i row) (enumerate 0 sample_rows)"

section \<open>The sensors collection\<close>

text \<open>
  The repository creates no index of its own, so the uniqueness constraint of the sensors
  collection is the one every MongoDB collection has: the value of \<open>_id\<close>. The store and
  the driver are outside the repository; they are modelled by what \<open>insert_one\<close> is
  documented to do. The driver adds an \<open>_id\<close> (a new \<open>ObjectId\<close>) to a document that
  has none, changing the caller's dictionary; the server rejects a document whose \<open>_id\<close>
  equals that of a stored document with \<open>DuplicateKeyError\<close>, and stores it otherwise.
  The server compares numbers by value, whatever their type. \<open>fault\<close> stands for any
  other failure of the call (a lost connection, a document the server cannot encode).
\<close>

record collection =
  docs :: "pydict list"
  next_oid :: nat

fun bson_key :: "pyval \<Rightarrow> pyval" where
  "bson_key (PInt i) = PFloat (of_int i)"
| "bson_key (PList xs) = PList (map bson_key xs)"
| "bson_key (PDict d) = PDict (map (\<lambda>(k, v). (k, bson_key v)) d)"
| "bson_key v = v"

definition doc_key :: "pydict \<Rightarrow> pyval" where
  "doc_key d = bson_key (dict_get d ''_id'' PNone)"

definition keys_of :: "collection \<Rightarrow> pyval list" where
  "keys_of c = map doc_key (docs c)"

definition count_documents :: "collection \<Rightarrow> nat" where
  "count_documents c = length (docs c)"

definition insert_one ::
  "py_error option \<Rightarrow> pydict \<Rightarrow> collection \<Rightarrow> py_error option \<times> pydict \<times> collection" where
  "insert_one fault document c =
     (let (d, c1) =
            (if dict_has document ''_id'' then (document, c)
             else (dict_set document ''_id'' (PObjectId (next_oid c)),
                   c\<lparr>next_oid := Suc (next_oid c)\<rparr>))
      in case fault of
           Some e \<Rightarrow> (Some e, d, c1)
         | None \<Rightarrow>
             if doc_key d \<in> set (keys_of c1) then (Some DuplicateKeyError, d, c1)
             else (None, d, c1\<lparr>docs := docs c1 @ [d]\<rparr>))"

text \<open>
  \<open>MongoDBManager.store_sensor_data\<close>. The loop stamps each sensor with \<open>stored_at\<close>,
  inserts it, and continues past a \<open>DuplicateKeyError\<close>; any other exception leaves the
  loop and the method returns \<open>False\<close>. \<open>now i\<close> is the clock and \<open>fault i\<close> the failure
  of the driver, if any, at iteration \<open>i\<close>. The result is the error that ended the loop, the
  caller's list as the loop has changed it, and the collection.
\<close>

fun store_loop ::
  "(nat \<Rightarrow> nat) \<Rightarrow> (nat \<Rightarrow> py_error option) \<Rightarrow> nat \<Rightarrow> pydict list \<Rightarrow> collection
     \<Rightarrow> py_error option \<times> pydict list \<times> collection" where
  "store_loop now fault i [] c = (None, [], c)"
| "store_loop now fault i (sensor # rest) c =
     (let s1 = dict_set sensor ''stored_at'' (PDateTime (now i));
          (err, s2, c1) = insert_one (fault i) s1 c
      in if err = None \<or> err = Some DuplicateKeyError
         then (let (e, rest', c2) = store_loop now fault (Suc i) rest c1
               in (e, s2 # rest', c2))
         else (err, s2 # rest, c1))"

definition store_sensor_data ::
  "(nat \<Rightarrow> nat) \<Rightarrow> (nat \<Rightarrow> py_error option) \<Rightarrow> pydict list \<Rightarrow> collection
     \<Rightarrow> bool \<times> pydict list \<times> collection" where
  "store_sensor_data now fault sensor_data c =
     (let (err, sensors', c') = store_loop now fault 0 sensor_data c
      in (err = None, sensors', c'))"

text \<open>
  \<open>MongoDBManager.initialize_sample_data\<close>: the sample sensors are stored when the
  collection is empty. \<open>count_fault\<close> is the failure, if any, of \<open>count_documents\<close>.
  The result of \<open>store_sensor_data\<close> is not looked at.
\<close>

definition initialize_sample_data ::
  "py_error option \<Rightarrow> (nat \<Rightarrow> string) \<Rightarrow> (nat \<Rightarrow> nat) \<Rightarrow> (nat \<Rightarrow> py_error option)
     \<Rightarrow> collection \<Rightarrow> bool \<times> collection" where
  "initialize_sample_data count_fault stamp now fault c =
     (case count_fault of
        Some e \<Rightarrow> (False, c)
      | None \<Rightarrow>
          if count_documents c = 0
          then (let (ok, sensors', c') = store_sensor_data now fault (sample_sensors stamp) c
                in (True, c'))
          else (True, c))"

section \<open>Aggregation over the collections\<close>

text \<open>
  \<open>MongoDBManager.get_pollution_statistics\<close>. The method counts the pollution reports,
  counts those reported since \<open>today\<close> (the start of the current day), and runs a
  pipeline over the sensors: group by \<open>location\<close>, average \<open>pollution_level\<close>, count,
  sort by the average, descending. The server's \<open>$avg\<close> takes the numeric values only
  and is null when a group has none; null sorts below every number. The order of the
  groups and of equal averages is not fixed by the server: the model keeps the order of
  first occurrence. \<open>fault\<close> is the first exception raised by a call of the driver in
  the method, if any.
\<close>

fun bson_num :: "pyval \<Rightarrow> real option" where
  "bson_num (PInt i) = Some (of_int i)"
| "bson_num (PFloat r) = Some r"
| "bson_num _ = None"

definition reported_since :: "nat \<Rightarrow> pydict \<Rightarrow> bool" where
  "reported_since today d =
     (case dict_get d ''reported_at'' PNone of PDateTime t \<Rightarrow> today \<le> t | _ \<Rightarrow> False)"

definition group_avg :: "pydict list \<Rightarrow> pyval" where
  "group_avg ds =
     (let xs = List.map_filter (\<lambda>d. bson_num (dict_get d ''pollution_level'' PNone)) ds
      in if xs = [] then PNone else PFloat (sum_list xs / of_nat (length xs)))"

definition group_by_location :: "pydict list \<Rightarrow> pydict list" where
  "group_by_location ds =
     map (\<lambda>k. let members = filter (\<lambda>d. bson_key (dict_get d ''location'' PNone) = k) ds
               in [(''_id'', k), (''avg_pollution'', group_avg members),
                   (''count'', PInt (int (length members)))])
         (remdups (map (\<lambda>d. bson_key (dict_get d ''location'' PNone)) ds))"

definition avg_geq :: "pydict \<Rightarrow> pydict \<Rightarrow> bool" where
  "avg_geq a b =
     (case bson_num (dict_get b ''avg_pollution'' PNone) of
        None \<Rightarrow> True
      | Some y \<Rightarrow> (case bson_num (dict_get a ''avg_pollution'' PNone) of
                     None \<Rightarrow> False
                   | Some x \<Rightarrow> y \<le> x))"

fun insert_desc :: "pydict \<Rightarrow> pydict list \<Rightarrow> pydict list" where
  "insert_desc g [] = [g]"
| "insert_desc g (h # hs) = (if avg_geq g h then g # h # hs else h # insert_desc g hs)"

definition sort_desc :: "pydict list \<Rightarrow> pydict list" where
  "sort_desc gs = foldr insert_desc gs []"

definition empty_statistics :: pydict where
  "empty_statistics =
     [(''total_reports'', PInt 0), (''reports_today'', PInt 0), (''region_statistics'', PList [])]"

definition get_pollution_statistics ::
  "py_error option \<Rightarrow> nat \<Rightarrow> pydict list \<Rightarrow> pydict list \<Rightarrow> pydict" where
  "get_pollution_statistics fault today pollution_reports sensors =
     (case fault of
        Some e \<Rightarrow> empty_statistics
      | None \<Rightarrow>
          (let total_reports = length pollution_reports;
               recent_reports = length (filter (reported_since today) pollution_reports);
               region_stats = sort_desc (group_by_location sensors)
           in [(''total_reports'', PInt (int total_reports)),
               (''reports_today'', PInt (int recent_reports)),
               (''region_statistics'', PList (map PDict region_stats))]))"

text \<open>
  \<open>MongoDBManager.get_cleanup_data\<close>. The accumulators start at zero and
  \<open>next_deployment\<close> at \<open>None\<close>; each mission adds its robot counts and its waste,
  and counts as active or completed by its status. An addition of a value that is not a
  number, or a \<open>robots\<close> field that is not a dictionary, raises, and the method then
  returns the fallback summary, as it does when the query itself fails. The left operand
  of every sum is a number (an accumulator); sums with a float are taken in exact
  arithmetic.
\<close>

fun py_intval :: "pyval \<Rightarrow> int option" where
  "py_intval (PInt i) = Some i"
| "py_intval (PBool b) = Some (if b then 1 else 0)"
| "py_intval _ = None"

definition py_add :: "pyval \<Rightarrow> pyval \<Rightarrow> py_error + pyval" where
  "py_add x y =
     (case (py_intval x, py_intval y) of
        (Some a, Some b) \<Rightarrow> Inr (PInt (a + b))
      | _ \<Rightarrow> (case (py_num x, py_num y) of
                (Some a, Some b) \<Rightarrow> Inr (PFloat (a + b))
              | _ \<Rightarrow> Inl TypeError))"

record cleanup_acc =
  ocean_drones :: pyval
  surface_vessels :: pyval
  underwater_units :: pyval
  waste_collected_today :: pyval
  hotspots_addressed :: int
  active_missions :: int
  next_deployment :: pyval

definition cleanup_init :: cleanup_acc where
  "cleanup_init =
     \<lparr>ocean_drones = PInt 0, surface_vessels = PInt 0, underwater_units = PInt 0,
      waste_collected_today = PInt 0, hotspots_addressed = 0, active_missions = 0,
      next_deployment = PNone\<rparr>"

definition cleanup_step :: "pydict \<Rightarrow> cleanup_acc \<Rightarrow> py_error + cleanup_acc" where
  "cleanup_step mission acc =
     (case dict_get mission ''robots'' (PDict []) of
        PDict r \<Rightarrow>
          (case py_add (ocean_drones acc) (dict_get r ''ocean_drones'' (PInt 0)) of
             Inl e \<Rightarrow> Inl e
           | Inr od \<Rightarrow>
          (case py_add (surface_vessels acc) (dict_get r ''surface_vessels'' (PInt 0)) of
             Inl e \<Rightarrow> Inl e
           | Inr sv \<Rightarrow>
          (case py_add (underwater_units acc) (dict_get r ''underwater_units'' (PInt 0)) of
             Inl e \<Rightarrow> Inl e
           | Inr uu \<Rightarrow>
          (let status = dict_get mission ''status'' PNone;
               am = (if status = PStr ''active'' then active_missions acc + 1
                     else active_missions acc)
           in case py_add (waste_collected_today acc) (dict_get mission ''waste_collected'' (PInt 0)) of
                Inl e \<Rightarrow> Inl e
              | Inr w \<Rightarrow>
                  Inr \<lparr>ocean_drones = od, surface_vessels = sv, underwater_units = uu,
                       waste_collected_today = w,
                       hotspots_addressed =
                         (if status = PStr ''completed'' then hotspots_addressed acc + 1
                          else hotspots_addressed acc),
                       active_missions = am,
                       next_deployment =
                         (if \<not> truthy (next_deployment acc)
                             \<and> truthy (dict_get mission ''next_deployment'' PNone)
                          then dict_get mission ''next_deployment'' PNone
                          else next_deployment acc)\<rparr>))))
      | _ \<Rightarrow> Inl AttributeError)"

fun cleanup_loop :: "pydict list \<Rightarrow> cleanup_acc \<Rightarrow> py_error + cleanup_acc" where
  "cleanup_loop [] acc = Inr acc"
| "cleanup_loop (mission # missions) acc =
     (case cleanup_step mission acc of
        Inl e \<Rightarrow> Inl e
      | Inr acc' \<Rightarrow> cleanup_loop missions acc')"

definition cleanup_fallback :: pydict where
  "cleanup_fallback =
     [(''active_missions'', PInt 0),
      (''cleanup_robots'',
         PDict [(''ocean_drones'', PInt 0), (''surface_vessels'', PInt 0),
                (''underwater_units'', PInt 0)]),
      (''waste_collected_today'', PInt 0),
      (''hotspots_addressed'', PInt 0),
      (''next_deployment'', PStr [])]"

definition get_cleanup_data :: "py_error + pydict list \<Rightarrow> pydict" where
  "get_cleanup_data found =
     (case found of
        Inl e \<Rightarrow> cleanup_fallback
      | Inr missions \<Rightarrow>
          (case cleanup_loop missions cleanup_init of
             Inl e \<Rightarrow> cleanup_fallback
           | Inr acc \<Rightarrow>
               [(''active_missions'', PInt (active_missions acc)),
                (''cleanup_robots'',
                   PDict [(''ocean_drones'', ocean_drones acc),
                          (''surface_vessels'', surface_vessels acc),
                          (''underwater_units'', underwater_units acc)]),
                (''waste_collected_today'', waste_collected_today acc),
                (''hotspots_addressed'', PInt (hotspots_addressed acc)),
                (''next_deployment'',
                   (if truthy (next_deployment acc) then next_deployment acc else PStr []))]))"

section \<open>Library functions and strings\<close>

text \<open>
  Functions of Python's library that the program calls and whose results are taken as
  given: \<open>repr_of\<close> is \<open>str\<close> on floats, datetimes, bytes and containers,
  \<open>isoformat\<close> the ISO rendering of a datetime, \<open>strftime\<close> its rendering in the
  format \<open>%Y%m%d-%H%M%S\<close>, \<open>error_text\<close> is \<open>str\<close> on an
  exception, \<open>b64encode\<close> is \<open>base64.b64encode\<close> followed by \<open>decode\<close>, \<open>md5\<close> the
  MD5 digest as a 128-bit number, \<open>parse_int\<close> and \<open>parse_float\<close> are \<open>int\<close> and
  \<open>float\<close> on a string (\<open>None\<close> where they raise \<open>ValueError\<close>), and
  \<open>secure_filename\<close> is werkzeug's.
\<close>

record library =
  repr_of :: "pyval \<Rightarrow> string"
  isoformat :: "nat \<Rightarrow> string"
  strftime :: "nat \<Rightarrow> string"
  error_text :: "py_error \<Rightarrow> string"
  b64encode :: "string \<Rightarrow> string"
  md5 :: "string \<Rightarrow> 128 word"
  parse_int :: "string \<Rightarrow> int option"
  parse_float :: "string \<Rightarrow> real option"
  secure_filename :: "string \<Rightarrow> string"

text \<open>\<open>str\<close> on a value; an \<open>ObjectId\<close> prints as its 24 hexadecimal digits.\<close>

definition hex_char :: "nat \<Rightarrow> char" where
  "hex_char d = ''0123456789abcdef'' ! d"

fun hex_digits :: "nat \<Rightarrow> nat \<Rightarrow> string" where
  "hex_digits 0 n = []"
| "hex_digits (Suc k) n = hex_digits k (n div 16) @ [hex_char (n mod 16)]"

definition oid_hex :: "nat \<Rightarrow> string" where
  "oid_hex n = hex_digits 24 n"

definition int_str :: "int \<Rightarrow> string" where
  "int_str i = (if i < 0 then CHR ''-'' # dec_str (nat (- i)) else dec_str (nat i))"

fun py_str :: "library \<Rightarrow> pyval \<Rightarrow> string" where
  "py_str L (PStr s) = s"
| "py_str L PNone = ''None''"
| "py_str L (PBool b) = (if b then ''True'' else ''False'')"
| "py_str L (PInt i) = int_str i"
| "py_str L (PObjectId n) = oid_hex n"
| "py_str L v = repr_of L v"

text \<open>
  \<open>s.lower()\<close> and \<open>needle in haystack\<close> on strings. Strings are byte strings here and
  \<open>lower\<close> acts on the ASCII letters.
\<close>

definition lower_char :: "char \<Rightarrow> char" where
  "lower_char c =
     (let n = (of_char c :: nat) in if 65 \<le> n \<and> n \<le> 90 then char_of (n + 32) else c)"

definition py_lower :: "string \<Rightarrow> string" where
  "py_lower s = map lower_char s"

fun starts_with :: "string \<Rightarrow> string \<Rightarrow> bool" where
  "starts_with hs [] = True"
| "starts_with [] (n # ns) = False"
| "starts_with (h # hs) (n # ns) = (h = n \<and> starts_with hs ns)"

fun contains :: "string \<Rightarrow> string \<Rightarrow> bool" where
  "contains [] needle = (needle = [])"
| "contains (h # hs) needle = (starts_with (h # hs) needle \<or> contains hs needle)"

text \<open>
  \<open>v[k]\<close> and \<open>v.get(k, default)\<close> on a value that need not be a dictionary,
  \<open>v.lower()\<close> followed by a test \<open>keyword in ...\<close> (bytes have \<open>lower\<close>, but a string
  is not found in bytes), and \<open>v.isoformat()\<close>.
\<close>

definition subscript :: "pyval \<Rightarrow> string \<Rightarrow> py_error + pyval" where
  "subscript v k = (case v of PDict d \<Rightarrow> dict_item d k | _ \<Rightarrow> Inl TypeError)"

definition get_or :: "pyval \<Rightarrow> string \<Rightarrow> pyval \<Rightarrow> py_error + pyval" where
  "get_or v k dflt = (case v of PDict d \<Rightarrow> Inr (dict_get d k dflt) | _ \<Rightarrow> Inl AttributeError)"

definition lower_of :: "pyval \<Rightarrow> py_error + string" where
  "lower_of v =
     (case v of PStr s \<Rightarrow> Inr (py_lower s) | PBytes b \<Rightarrow> Inl TypeError | _ \<Rightarrow> Inl AttributeError)"

definition isoformat_of :: "library \<Rightarrow> pyval \<Rightarrow> py_error + pyval" where
  "isoformat_of L v = (case v of PDateTime t \<Rightarrow> Inr (PStr (isoformat L t)) | _ \<Rightarrow> Inl AttributeError)"

definition bind_err :: "py_error + 'a \<Rightarrow> ('a \<Rightarrow> py_error + 'b) \<Rightarrow> py_error + 'b" where
  "bind_err m f = (case m of Inl e \<Rightarrow> Inl e | Inr x \<Rightarrow> f x)"

section \<open>The cloud service gateway\<close>

text \<open>
  The operations of the cloud SDK that the modelled wrappers call. Each yields its result
  or the exception it raised; creating the client inside the wrapper's \<open>try\<close> is part
  of the operation. \<open>polly_synthesize_speech\<close> stands for the call together with the
  read of the audio stream it returns.
\<close>

record aws =
  polly_synthesize_speech :: "pyval \<Rightarrow> pyval \<Rightarrow> py_error + string"
  rekognition_detect_labels :: "string \<Rightarrow> py_error + pyval"
  iot_list_things :: "py_error + pyval"
  sagemaker_list_models :: "py_error + pyval"
  s3_list_buckets :: "py_error + pyval"
  s3_create_bucket :: "string \<Rightarrow> py_error option"
  s3_put_object :: "string \<Rightarrow> string \<Rightarrow> string \<Rightarrow> py_error option"
  s3_head_bucket :: "string \<Rightarrow> py_error option"
  s3_list_objects_v2 :: "string \<Rightarrow> py_error + pyval"
  s3_copy_object :: "string \<Rightarrow> string \<Rightarrow> pyval \<Rightarrow> string \<Rightarrow> py_error option"

text \<open>\<open>AWSServices.synthesize_speech\<close>: the audio bytes, or \<open>None\<close> on any exception.\<close>

definition synthesize_speech :: "aws \<Rightarrow> pyval \<Rightarrow> pyval \<Rightarrow> pyval" where
  "synthesize_speech A text voice_id =
     (case polly_synthesize_speech A text voice_id of
        Inl e \<Rightarrow> PNone
      | Inr audio \<Rightarrow> PBytes audio)"

text \<open>
  \<open>AWSServices.analyze_image\<close>: the labels whose lower-cased name contains one of the
  keywords, or the empty list on any exception. A \<open>Labels\<close> value that is not a list
  either cannot be iterated, or yields items that cannot be subscripted by a string, or is
  empty: the result is the empty list in each case.
\<close>

definition image_keywords :: "string list" where
  "image_keywords = [''harmful algae bloom'', ''algae'', ''waste'', ''trash'', ''debris'']"

fun image_labels :: "pyval list \<Rightarrow> py_error + pyval list" where
  "image_labels [] = Inr []"
| "image_labels (label # labels) =
     bind_err (subscript label ''Name'') (\<lambda>name.
     bind_err (lower_of name) (\<lambda>lname.
       if list_ex (\<lambda>keyword. contains lname keyword) image_keywords
       then bind_err (subscript label ''Confidence'') (\<lambda>confidence.
            bind_err (image_labels labels) (\<lambda>rest.
              Inr (PDict [(''name'', name), (''confidence'', confidence)] # rest)))
       else image_labels labels))"

definition analyze_image :: "aws \<Rightarrow> string \<Rightarrow> pyval" where
  "analyze_image A image_data =
     (case rekognition_detect_labels A image_data of
        Inl e \<Rightarrow> PList []
      | Inr response \<Rightarrow>
          (case subscript response ''Labels'' of
             Inr (PList labels) \<Rightarrow>
               (case image_labels labels of Inl e \<Rightarrow> PList [] | Inr found \<Rightarrow> PList found)
           | _ \<Rightarrow> PList []))"

text \<open>
  \<open>list_iot_sensors\<close>, \<open>get_sagemaker_models\<close> and \<open>get_s3_bucket_info\<close>: one listing
  call each, the entries rebuilt field by field, the empty list on any exception.
\<close>

fun iot_things :: "pyval list \<Rightarrow> py_error + pyval list" where
  "iot_things [] = Inr []"
| "iot_things (thing # things) =
     bind_err (subscript thing ''thingName'') (\<lambda>name.
     bind_err (subscript thing ''thingArn'') (\<lambda>arn.
     bind_err (subscript thing ''version'') (\<lambda>version.
     bind_err (iot_things things) (\<lambda>rest.
       Inr (PDict [(''name'', name), (''arn'', arn), (''version'', version)] # rest)))))"

definition list_iot_sensors :: "aws \<Rightarrow> pyval list" where
  "list_iot_sensors A =
     (case iot_list_things A of
        Inl e \<Rightarrow> []
      | Inr response \<Rightarrow>
          (case get_or response ''things'' (PList []) of
             Inr (PList things) \<Rightarrow> (case iot_things things of Inl e \<Rightarrow> [] | Inr sensors \<Rightarrow> sensors)
           | _ \<Rightarrow> []))"

fun sagemaker_models :: "library \<Rightarrow> pyval list \<Rightarrow> py_error + pyval list" where
  "sagemaker_models L [] = Inr []"
| "sagemaker_models L (model # models) =
     bind_err (subscript model ''ModelName'') (\<lambda>name.
     bind_err (subscript model ''ModelArn'') (\<lambda>arn.
     bind_err (subscript model ''CreationTime'') (\<lambda>created.
     bind_err (isoformat_of L created) (\<lambda>creation_time.
     bind_err (sagemaker_models L models) (\<lambda>rest.
       Inr (PDict [(''name'', name), (''arn'', arn), (''creation_time'', creation_time)]
            # rest))))))"

definition get_sagemaker_models :: "library \<Rightarrow> aws \<Rightarrow> pyval list" where
  "get_sagemaker_models L A =
     (case sagemaker_list_models A of
        Inl e \<Rightarrow> []
      | Inr response \<Rightarrow>
          (case get_or response ''Models'' (PList []) of
             Inr (PList models) \<Rightarrow>
               (case sagemaker_models L models of Inl e \<Rightarrow> [] | Inr found \<Rightarrow> found)
           | _ \<Rightarrow> []))"

fun s3_buckets :: "library \<Rightarrow> pyval list \<Rightarrow> py_error + pyval list" where
  "s3_buckets L [] = Inr []"
| "s3_buckets L (bucket # buckets) =
     bind_err (subscript bucket ''Name'') (\<lambda>name.
     bind_err (lower_of name) (\<lambda>lname.
       if contains lname ''pollution'' \<or> contains lname ''gppnn''
       then bind_err (subscript bucket ''CreationDate'') (\<lambda>created.
            bind_err (isoformat_of L created) (\<lambda>creation_date.
            bind_err (s3_buckets L buckets) (\<lambda>rest.
              Inr (PDict [(''name'', name), (''creation_date'', creation_date)] # rest))))
       else s3_buckets L buckets))"

definition get_s3_bucket_info :: "library \<Rightarrow> aws \<Rightarrow> pyval list" where
  "get_s3_bucket_info L A =
     (case s3_list_buckets A of
        Inl e \<Rightarrow> []
      | Inr response \<Rightarrow>
          (case get_or response ''Buckets'' (PList []) of
             Inr (PList buckets) \<Rightarrow>
               (case s3_buckets L buckets of Inl e \<Rightarrow> [] | Inr found \<Rightarrow> found)
           | _ \<Rightarrow> []))"

text \<open>
  \<open>for x in v\<close>: a list yields its items, a dictionary its keys, a string its
  characters, bytes their numbers; other values cannot be iterated.
\<close>

definition py_iter :: "pyval \<Rightarrow> py_error + pyval list" where
  "py_iter v =
     (case v of
        PList xs \<Rightarrow> Inr xs
      | PDict d \<Rightarrow> Inr (map (\<lambda>(k, x). PStr k) d)
      | PStr s \<Rightarrow> Inr (map (\<lambda>ch. PStr [ch]) s)
      | PBytes b \<Rightarrow> Inr (map (\<lambda>ch. PInt (int (of_char ch))) b)
      | _ \<Rightarrow> Inl TypeError)"

text \<open>
  \<open>AWSServices.create_backup_snapshot\<close>, with bucket names that are strings. When the
  source bucket cannot be reached the method returns a simulated backup built from its
  arguments; a failure to create the backup bucket (other than its existing already) or
  to list the source gives \<open>None\<close>; a failed copy is passed over. \<open>t_name\<close>,
  \<open>t_stamp\<close> and \<open>t_copy k\<close> are the readings of \<open>datetime.now()\<close> for the default
  bucket name, for the result and for the \<open>k\<close>-th object.
\<close>

fun backup_loop ::
  "library \<Rightarrow> aws \<Rightarrow> (nat \<Rightarrow> nat) \<Rightarrow> string \<Rightarrow> string \<Rightarrow> nat \<Rightarrow> int \<Rightarrow> pyval list
     \<Rightarrow> py_error + int" where
  "backup_loop L A t_copy source_bucket backup_bucket k backup_count [] = Inr backup_count"
| "backup_loop L A t_copy source_bucket backup_bucket k backup_count (obj # objs) =
     bind_err (subscript obj ''Key'') (\<lambda>source_key.
       (let backup_key = ''backup-'' @ strftime L (t_copy k) @ ''/'' @ py_str L source_key
        in case s3_copy_object A backup_bucket source_bucket source_key backup_key of
             None \<Rightarrow>
               backup_loop L A t_copy source_bucket backup_bucket (Suc k) (backup_count + 1) objs
           | Some e \<Rightarrow>
               backup_loop L A t_copy source_bucket backup_bucket (Suc k) backup_count objs))"

definition copy_source ::
  "library \<Rightarrow> aws \<Rightarrow> nat \<Rightarrow> (nat \<Rightarrow> nat) \<Rightarrow> string \<Rightarrow> string \<Rightarrow> pyval" where
  "copy_source L A t_stamp t_copy source_bucket backup_bucket =
     (case s3_list_objects_v2 A source_bucket of
        Inl e \<Rightarrow> PNone
      | Inr objects \<Rightarrow>
          (case bind_err (bind_err (get_or objects ''Contents'' (PList [])) py_iter)
                  (backup_loop L A t_copy source_bucket backup_bucket 0 0) of
             Inl e \<Rightarrow> PNone
           | Inr backup_count \<Rightarrow>
               PDict [(''source_bucket'', PStr source_bucket),
                      (''backup_bucket'', PStr backup_bucket),
                      (''objects_backed_up'', PInt backup_count),
                      (''backup_timestamp'', PStr (isoformat L t_stamp)),
                      (''status'', PStr ''completed'')]))"

definition create_backup_snapshot ::
  "library \<Rightarrow> aws \<Rightarrow> nat \<Rightarrow> nat \<Rightarrow> (nat \<Rightarrow> nat) \<Rightarrow> string \<Rightarrow> string option \<Rightarrow> pyval" where
  "create_backup_snapshot L A t_name t_stamp t_copy source_bucket backup_bucket =
     (let backup_bucket =
            (case backup_bucket of
               None \<Rightarrow> ''pollution-backup-'' @ strftime L t_name
             | Some b \<Rightarrow> if b = [] then ''pollution-backup-'' @ strftime L t_name else b)
      in case s3_head_bucket A source_bucket of
           Some e \<Rightarrow>
             PDict [(''source_bucket'', PStr source_bucket),
                    (''backup_bucket'', PStr backup_bucket),
                    (''objects_backed_up'', PInt 5),
                    (''backup_timestamp'', PStr (isoformat L t_stamp)),
                    (''status'', PStr ''completed_simulated''),
                    (''note'', PStr ''Demo backup - source bucket not accessible'')]
         | None \<Rightarrow>
             (case s3_create_bucket A backup_bucket of
                Some e \<Rightarrow>
                  if \<not> contains (error_text L e) ''BucketAlreadyExists'' then PNone
                  else copy_source L A t_stamp t_copy source_bucket backup_bucket
              | None \<Rightarrow> copy_source L A t_stamp t_copy source_bucket backup_bucket))"

text \<open>
  \<open>get_lex_bot_status\<close> makes no call and returns a fixed description of the bot;
  \<open>get_comprehensive_aws_status\<close> has no handler of its own and relies on the wrappers it
  calls. \<open>now\<close> is \<open>datetime.now()\<close>.
\<close>

definition get_lex_bot_status :: "library \<Rightarrow> nat \<Rightarrow> pydict" where
  "get_lex_bot_status L now =
     [(''bot_status'', PStr ''active''),
      (''bot_name'', PStr ''HarmfulAlgaeBloomReportBot''),
      (''capabilities'',
         PList [PStr ''report_collection'', PStr ''data_query'', PStr ''voice_interaction'']),
      (''last_interaction'', PStr (isoformat L now))]"

definition get_comprehensive_aws_status :: "library \<Rightarrow> aws \<Rightarrow> nat \<Rightarrow> nat \<Rightarrow> py_error + pydict" where
  "get_comprehensive_aws_status L A now1 now2 =
     bind_err (dict_item (get_lex_bot_status L now1) ''bot_status'') (\<lambda>lex.
       Inr [(''iot_sensors'', PInt (int (length (list_iot_sensors A)))),
            (''lambda_functions'', PStr ''Available for data processing''),
            (''sagemaker_models'', PInt (int (length (get_sagemaker_models L A)))),
            (''bedrock_ai'', PStr ''Active - Claude 3 Sonnet''),
            (''polly_voices'', PStr ''Available - Multiple languages''),
            (''transcribe_jobs'', PStr ''Ready for audio processing''),
            (''rekognition_api'', PStr ''Active - Image analysis ready''),
            (''lex_bots'', lex),
            (''s3_storage'', PInt (int (length (get_s3_bucket_info L A)))),
            (''last_health_check'', PStr (isoformat L now2))])"

text \<open>
  \<open>process_citizen_chat_report\<close> makes no call either: it answers from the keywords of
  the message. \<open>time\<close> is \<open>int(time.time())\<close>.
\<close>

definition pollution_keywords :: "string list" where
  "pollution_keywords =
     [''harmful algae bloom'', ''pollution'', ''waste'', ''trash'', ''debris'', ''bottle'', ''bag'']"

definition process_citizen_chat_report ::
  "library \<Rightarrow> nat \<Rightarrow> nat \<Rightarrow> string \<Rightarrow> pyval \<Rightarrow> pydict" where
  "process_citizen_chat_report L time now chat_message session_id =
     (let session_id = (if \<not> truthy session_id then PStr (''session-'' @ dec_str time)
                        else session_id);
          analysis =
            PDict [(''severity'', PStr ''medium''), (''priority'', PStr ''normal''),
                   (''recommended_actions'',
                      PList [PStr ''Investigate location'', PStr ''Coordinate cleanup'']),
                   (''community_impact'', PStr ''moderate'')];
          is_pollution_report =
            list_ex (\<lambda>keyword. contains (py_lower chat_message) keyword) pollution_keywords;
          response =
            (if is_pollution_report
             then PDict [(''message'', PStr (''Thank you for reporting this harmful algae bloom issue. ''
                            @ ''Our team will investigate and take appropriate action. ''
                            @ ''You'' @ [CHR 0x27] @ ''ll receive updates on the progress.'')),
                         (''action_required'', PBool True),
                         (''priority'', PStr ''medium''),
                         (''next_steps'',
                            PList [PStr ''Location verification'', PStr ''Severity assessment'',
                                   PStr ''Cleanup coordination''])]
             else PDict [(''message'', PStr (''Thank you for your message. How can I help you ''
                            @ ''with harmful algae bloom reporting or environmental concerns?'')),
                         (''action_required'', PBool False),
                         (''priority'', PStr ''low''),
                         (''next_steps'', PList [])])
      in [(''session_id'', session_id),
          (''user_message'', PStr chat_message),
          (''bot_response'', response),
          (''analysis'', analysis),
          (''timestamp'', PStr (isoformat L now))])"

section \<open>Recent sensor data and predictions\<close>

text \<open>
  \<open>MongoDBManager.get_recent_sensor_data\<close>: \<open>found\<close> is what the driver yields for the
  query (the sensors sorted by \<open>stored_at\<close>, newest first, cut at the limit) or the
  exception it raised. Each \<open>_id\<close> is replaced by its string; an exception gives the
  empty list.
\<close>

definition get_recent_sensor_data :: "library \<Rightarrow> py_error + pydict list \<Rightarrow> pydict list" where
  "get_recent_sensor_data L found =
     (case found of
        Inl e \<Rightarrow> []
      | Inr data \<Rightarrow>
          map (\<lambda>item. if dict_has item ''_id''
                       then dict_set item ''_id'' (PStr (py_str L (dict_get item ''_id'' PNone)))
                       else item) data)"

text \<open>
  \<open>AWSServices.get_prediction_data\<close>: one entry per recent sensor, built by
  \<open>prediction_entry\<close> (the body of the loop); the empty list when there is no sensor data.
\<close>

definition prediction_entry :: "pydict \<Rightarrow> pydict" where
  "prediction_entry sensor =
     [(''region'', dict_get sensor ''location'' (PStr ''Unknown'')),
      (''current_level'', dict_get sensor ''pollution_level'' (PInt 0)),
      (''predicted_7days'', dict_get sensor ''pollution_level'' (PInt 0)),
      (''predicted_30days'', dict_get sensor ''pollution_level'' (PInt 0)),
      (''trend'', PStr ''stable''),
      (''confidence'', PInt 90)]"

definition get_prediction_data :: "library \<Rightarrow> py_error + pydict list \<Rightarrow> pydict list" where
  "get_prediction_data L found =
     (let sensor_data = get_recent_sensor_data L found
      in if sensor_data = [] then [] else map prediction_entry sensor_data)"

section \<open>HTTP handlers\<close>

text \<open>
  A handler's answer is a status and a body. The body is the value handed to \<open>jsonify\<close>;
  an exception that leaves a handler is answered by the framework with its own page and
  status 500. \<open>jsonify\<close> raises \<open>TypeError\<close> on a value that holds an \<open>ObjectId\<close> or
  bytes.
\<close>

datatype http_body = Json pyval | ErrorPage

record http_response =
  status :: nat
  body :: http_body





text \<open>
  \<open>AWSServices.invoke_bedrock_agent\<close>: a simulated agent that answers from the keywords
  of its input.
\<close>

definition invoke_bedrock_agent :: "library \<Rightarrow> nat \<Rightarrow> pyval \<Rightarrow> string \<Rightarrow> pydict" where
  "invoke_bedrock_agent L now agent_id user_input =
     (let agent_response =
            [(''agent_id'', agent_id),
             (''user_input'', PStr user_input),
             (''response'', PStr []),
             (''actions_taken'', PList []),
             (''confidence'', PFloat (9 / 10)),
             (''timestamp'', PStr (isoformat L now))];
          user_input_lower = py_lower user_input
      in if contains user_input_lower ''pollution'' \<and> contains user_input_lower ''analysis''
         then dict_set (dict_set agent_response ''response''
                (PStr (''I'' @ [CHR 0x27] @ ''ll analyze the current pollution data. Based on sensor ''
                   @ ''readings, the Mediterranean Sea shows critical levels at 9.1, requiring ''
                   @ ''immediate cleanup deployment.'')))
                ''actions_taken'' (PList [PStr ''data_analysis'', PStr ''alert_generation''])
         else if contains user_input_lower ''cleanup'' \<and> contains user_input_lower ''coordinate''
         then dict_set (dict_set agent_response ''response''
                (PStr (''I'' @ [CHR 0x27] @ ''m coordinating cleanup operations. Deploying 3 ocean ''
                   @ ''drones and 2 surface vessels to the Mediterranean Sea hotspot. ''
                   @ ''Estimated completion: 4 hours.'')))
                ''actions_taken'' (PList [PStr ''resource_allocation'', PStr ''mission_planning''])
         else if contains user_input_lower ''alert''
         then dict_set (dict_set agent_response ''response''
                (PStr (''Generating high-priority alert for Mediterranean Sea. Notifying ''
                   @ ''authorities and activating emergency response protocols.'')))
                ''actions_taken'' (PList [PStr ''alert_generation'', PStr ''authority_notification''])
         else dict_set (dict_set agent_response ''response''
                (PStr (''I'' @ [CHR 0x27] @ ''m your AI assistant for harmful algae bloom management. ''
                   @ ''I can analyze data, coordinate cleanup, and generate alerts. ''
                   @ ''How can I help?'')))
                ''actions_taken'' (PList [PStr ''general_assistance'']))"

text \<open>
  \<open>api_ai_alerts\<close> (\<open>/api/ai-alerts\<close>): \<open>sensor_data\<close> is the list returned by
  \<open>get_iot_sensor_data\<close>. A sensor above level 7 gives an alert; its severity is high
  above level 8 and medium otherwise. A missing key or a level that is not a number
  raises; the handler then answers with an error body and, no status being given, 200.
\<close>

definition no_recommendation :: string where
  "no_recommendation =
     ''<p><strong>'' @ [CHR 0xE2, CHR 0x9A, CHR 0xA0, CHR 0xEF, CHR 0xB8, CHR 0x8F]
       @ '' No recommendation available.</strong></p>''"

definition alert_prompt :: "library \<Rightarrow> pyval \<Rightarrow> pyval \<Rightarrow> string" where
  "alert_prompt L location level =
     ''A pollution alert has been triggered for '' @ py_str L location
       @ '' with a pollution level of '' @ py_str L level @ ''. ''
       @ ''Provide a concise, actionable HTML recommendation (3-4 lines, use <p> tags, ''
       @ ''include relevant emojis) for authorities and cleanup teams. ''
       @ ''Focus on immediate actions, resource deployment, and community notification.''"

fun alerts_loop :: "library \<Rightarrow> nat \<Rightarrow> pydict list \<Rightarrow> py_error + pyval list" where
  "alerts_loop L now [] = Inr []"
| "alerts_loop L now (sensor # rest) =
     bind_err (dict_item sensor ''pollution_level'') (\<lambda>level.
     bind_err (py_gt level 7) (\<lambda>above.
       if above
       then bind_err (dict_item sensor ''location'') (\<lambda>location.
            (let agent_result =
                   invoke_bedrock_agent L now (PStr ''pollution-agent'') (alert_prompt L location level);
                 recommendation_html =
                   (if agent_result \<noteq> [] \<and> dict_has agent_result ''response''
                    then dict_get agent_result ''response'' PNone
                    else PStr no_recommendation)
             in bind_err (dict_item sensor ''id'') (\<lambda>sid.
                bind_err (py_gt level 8) (\<lambda>high.
                bind_err (dict_item sensor ''timestamp'') (\<lambda>stamp.
                bind_err (alerts_loop L now rest) (\<lambda>more.
                  Inr (PDict [(''id'', PStr (''alert-'' @ py_str L sid)),
                              (''location'', location),
                              (''pollution_level'', level),
                              (''severity'', PStr (if high then ''high'' else ''medium'')),
                              (''message'',
                                 PStr (''High pollution detected in '' @ py_str L location)),
                              (''timestamp'', stamp),
                              (''actions_required'',
                                 PList [PStr ''deploy_cleanup_units'', PStr ''notify_authorities'']),
                              (''recommendation_html'', recommendation_html)]
                       # more)))))))
       else alerts_loop L now rest))"


section \<open>Submitting a pollution report\<close>

text \<open>
  \<open>MongoDBManager.store_pollution_report\<close>: the report is stamped and inserted; the
  result is the string of the new \<open>_id\<close>, or \<open>None\<close> on any exception.
\<close>

definition store_pollution_report ::
  "library \<Rightarrow> nat \<Rightarrow> py_error option \<Rightarrow> pydict \<Rightarrow> collection \<Rightarrow> pyval \<times> collection" where
  "store_pollution_report L now fault report_data c =
     (let (err, d, c') = insert_one fault (dict_set report_data ''reported_at'' (PDateTime now)) c
      in case err of
           Some e \<Rightarrow> (PNone, c')
         | None \<Rightarrow> (PStr (py_str L (dict_get d ''_id'' PNone)), c'))"

text \<open>
  The request of \<open>submit_report\<close> (\<open>/submit-report\<close>): the form fields, and the file
  sent under \<open>image\<close>, if any, with its name and bytes. A browser sends a part with an
  empty file name when no file was chosen. The handler's surroundings when it keeps an
  image: \<open>save_fault\<close> is the exception, if any, of creating the upload directory or
  saving the file, \<open>read_back\<close> the bytes read back from the saved file or the exception
  of reading them.
\<close>

record upload =
  filename :: string
  content :: string

record report_request =
  form :: "(string \<times> string) list"
  image :: "upload option"

record upload_env =
  save_fault :: "py_error option"
  read_back :: "py_error + string"

datatype redirect = Submitted | Failed | Errored py_error

definition form_get :: "(string \<times> string) list \<Rightarrow> string \<Rightarrow> pyval \<Rightarrow> pyval" where
  "form_get f k dflt = (case map_of f k of None \<Rightarrow> dflt | Some s \<Rightarrow> PStr s)"


definition level_field :: "library \<Rightarrow> report_request \<Rightarrow> int option" where
  "level_field L req =
     (case map_of (form req) ''pollution_level'' of None \<Rightarrow> Some 0 | Some s \<Rightarrow> parse_int L s)"

definition with_coordinates :: "library \<Rightarrow> report_request \<Rightarrow> pydict \<Rightarrow> pydict" where
  "with_coordinates L req report_data =
     (case (map_of (form req) ''lat'', map_of (form req) ''lng'') of
        (Some lat, Some lng) \<Rightarrow>
          if lat \<noteq> [] \<and> lat \<noteq> ''None'' \<and> lng \<noteq> [] \<and> lng \<noteq> ''None''
          then (case parse_float L lat of
                  None \<Rightarrow> report_data
                | Some a \<Rightarrow>
                    (case parse_float L lng of
                       None \<Rightarrow> dict_set report_data ''lat'' (PFloat a)
                     | Some b \<Rightarrow>
                         dict_set (dict_set report_data ''lat'' (PFloat a)) ''lng'' (PFloat b)))
          else report_data
      | _ \<Rightarrow> report_data)"

definition with_image ::
  "library \<Rightarrow> aws \<Rightarrow> upload_env \<Rightarrow> report_request \<Rightarrow> pydict \<Rightarrow> py_error + pydict" where
  "with_image L A U req report_data =
     (case image req of
        None \<Rightarrow> Inr report_data
      | Some image_file \<Rightarrow>
          if filename image_file \<noteq> []
          then (case save_fault U of
                  Some e \<Rightarrow> Inl e
                | None \<Rightarrow>
                    (let r1 = dict_set report_data ''image_path''
                                (PStr (''uploads/'' @ secure_filename L (filename image_file)))
                     in case read_back U of
                          Inl e \<Rightarrow> Inr (dict_set r1 ''image_analysis'' (PList []))
                        | Inr image_bytes \<Rightarrow>
                            Inr (dict_set r1 ''image_analysis'' (analyze_image A image_bytes))))
          else Inr report_data)"

definition submit_report ::
  "library \<Rightarrow> aws \<Rightarrow> upload_env \<Rightarrow> nat \<Rightarrow> py_error option \<Rightarrow> report_request \<Rightarrow> collection
     \<Rightarrow> redirect \<times> collection" where
  "submit_report L A U now fault req reports =
     (case level_field L req of
        None \<Rightarrow> (Errored ValueError, reports)
      | Some level \<Rightarrow>
          (let report_data =
                 [(''location'', form_get (form req) ''location'' PNone),
                  (''description'', form_get (form req) ''description'' PNone),
                  (''pollution_level'', PInt level),
                  (''reporter_name'', form_get (form req) ''reporter_name'' (PStr ''Anonymous'')),
                  (''contact'', form_get (form req) ''contact'' (PStr [])),
                  (''severity'', form_get (form req) ''severity'' (PStr ''medium''))]
           in case with_image L A U req (with_coordinates L req report_data) of
                Inl e \<Rightarrow> (Errored e, reports)
              | Inr r2 \<Rightarrow>
                  (let location_name = form_get (form req) ''location'' PNone;
                       r3 = (if dict_has r2 ''location'' then dict_del r2 ''location'' else r2);
                       r4 = dict_set r3 ''location_name'' location_name;
                       (report_id, reports') = store_pollution_report L now fault r4 reports
                   in if truthy report_id then (Submitted, reports')
                      else (Failed, reports'))))"

section \<open>Simulated transcription\<close>

text \<open>
  \<open>AWSServices._simulate_transcription\<close> picks one of five sample transcripts by the MD5
  digest of the audio, read as a number, modulo the number of samples.
\<close>

definition sample_transcripts :: "string list" where
  "sample_transcripts =
     [''I am reporting harmful algae bloom in the Mediterranean Sea. The pollution level ''
        @ ''appears to be very high with visible harmful algae bloom debris floating on the ''
        @ ''surface.'',
      ''There'' @ [CHR 0x27] @ ''s a lot of harmful algae bloom waste near the Pacific Ocean ''
        @ ''coastline. I can see bottles, bags, and other debris washing up on the shore.'',
      ''The Atlantic Ocean area shows concerning levels of microalgae. The water appears ''
        @ ''contaminated with small harmful algae bloom particles.'',
      ''I need to report pollution in the Indian Ocean. There are large amounts of harmful ''
        @ ''algae bloom waste affecting marine life in this area.'',
      ''The Arctic Ocean region has harmful algae bloom pollution that needs immediate ''
        @ ''attention. The cold temperatures are preserving the waste.'']"

definition simulate_transcription :: "library \<Rightarrow> string \<Rightarrow> string" where
  "simulate_transcription L audio_data =
     (let hash_value = md5 L audio_data;
          index = unat hash_value mod length sample_transcripts
      in sample_transcripts ! index)"

text \<open>
  \<open>AWSServices.create_transcription_job\<close>: a bucket is created and the audio uploaded;
  the job itself is simulated. \<open>time1\<close> and \<open>time2\<close> are the two readings of
  \<open>int(time.time())\<close>, \<open>now\<close> is \<open>datetime.now()\<close>. The parameters assembled for the
  transcription service, with the vocabulary check, are never sent and do not reach the
  result. Any exception gives \<open>None\<close>.
\<close>

definition create_transcription_job ::
  "library \<Rightarrow> aws \<Rightarrow> nat \<Rightarrow> nat \<Rightarrow> nat \<Rightarrow> string \<Rightarrow> pyval \<Rightarrow> pyval \<Rightarrow> pyval" where
  "create_transcription_job L A time1 time2 now audio_data job_name language_code =
     (let job_name = (if \<not> truthy job_name then PStr (''transcribe-pollution-'' @ dec_str time1)
                      else job_name);
          bucket_name = ''pollution-audio-'' @ dec_str time2
      in case s3_create_bucket A bucket_name of
           Some e \<Rightarrow> PNone
         | None \<Rightarrow>
             (let audio_key = ''audio/'' @ py_str L job_name @ ''.mp3''
              in case s3_put_object A bucket_name audio_key audio_data of
                   Some e \<Rightarrow> PNone
                 | None \<Rightarrow>
                     (let media_uri = ''s3://'' @ bucket_name @ ''/'' @ audio_key
                      in PDict [(''job_name'', job_name),
                                (''status'', PStr ''COMPLETED''),
                                (''language_code'', language_code),
                                (''media_uri'', PStr media_uri),
                                (''transcript'', PStr (simulate_transcription L audio_data)),
                                (''confidence'', PFloat (95 / 100)),
                                (''created_at'', PStr (isoformat L now))])))"

section \<open>Instances for evaluation\<close>

text \<open>
  An instance of the library functions and two of the cloud operations (one where every
  operation raises, one where every operation answers), on which the model is evaluated
  at concrete inputs. \<open>exact_arith\<close> agrees with the machine's arithmetic wherever the
  exact sum or product is a float, as it is at the inputs it is used on below.
\<close>

definition exact_arith :: float_arith where
  "exact_arith = \<lparr>fadd = (\<lambda>x y. x + y), fmul = (\<lambda>x y. x * y)\<rparr>"

definition example_library :: library where
  "example_library =
     \<lparr>repr_of = (\<lambda>v. ''7.2''),
      isoformat = (\<lambda>t. ''2025-01-01T00:00:00''),
      strftime = (\<lambda>t. ''20250101-000000''),
      error_text = (\<lambda>e. ''error''),
      b64encode = (\<lambda>s. s),
      md5 = (\<lambda>s. word_of_nat (length s)),
      parse_int = (\<lambda>s. if s = ''3'' then Some 3 else None),
      parse_float = (\<lambda>s. None),
      secure_filename = (\<lambda>s. s)\<rparr>"

definition failing_aws :: aws where
  "failing_aws =
     \<lparr>polly_synthesize_speech = (\<lambda>text voice_id. Inl (ServiceError ''AccessDenied'')),
      rekognition_detect_labels = (\<lambda>image. Inl (ServiceError ''AccessDenied'')),
      iot_list_things = Inl (ServiceError ''AccessDenied''),
      sagemaker_list_models = Inl (ServiceError ''AccessDenied''),
      s3_list_buckets = Inl (ServiceError ''AccessDenied''),
      s3_create_bucket = (\<lambda>bucket. Some (ServiceError ''AccessDenied'')),
      s3_put_object = (\<lambda>bucket key data. Some (ServiceError ''AccessDenied'')),
      s3_head_bucket = (\<lambda>bucket. Some (ServiceError ''AccessDenied'')),
      s3_list_objects_v2 = (\<lambda>bucket. Inl (ServiceError ''AccessDenied'')),
      s3_copy_object = (\<lambda>bucket source key new_key. Some (ServiceError ''AccessDenied''))\<rparr>"

definition working_aws :: aws where
  "working_aws =
     \<lparr>polly_synthesize_speech = (\<lambda>text voice_id. Inr ''ID3''),
      rekognition_detect_labels =
        (\<lambda>image. Inr (PDict [(''Labels'',
           PList [PDict [(''Name'', PStr ''Algae''), (''Confidence'', PFloat 93)],
                  PDict [(''Name'', PStr ''Boat''), (''Confidence'', PFloat 88)]])])),
      iot_list_things = Inr (PDict [(''things'', PList [])]),
      sagemaker_list_models = Inr (PDict [(''Models'', PList [])]),
      s3_list_buckets = Inr (PDict [(''Buckets'', PList [])]),
      s3_create_bucket = (\<lambda>bucket. None),
      s3_put_object = (\<lambda>bucket key data. None),
      s3_head_bucket = (\<lambda>bucket. None),
      s3_list_objects_v2 =
        (\<lambda>bucket. Inr (PDict [(''Contents'', PList [PDict [(''Key'', PStr ''2025/readings.json'')]])])),
      s3_copy_object = (\<lambda>bucket source key new_key. None)\<rparr>"

section \<open>Verified properties\<close>

subsection \<open>Dictionaries\<close>

lemma dict_has_set: "dict_has (dict_set d k v) k' = (k' = k \<or> dict_has d k')"
  by (auto simp add: dict_has_def dict_set_def update_conv')


lemma dict_get_set_other:
  "k \<noteq> k' \<Longrightarrow> dict_get (dict_set d k v) k' dflt = dict_get d k' dflt"
  by (simp add: dict_get_def dict_set_def update_conv')


subsection \<open>Status of generated sensor readings\<close>

lemma seed_sensor_fields:
  "sensor_level (seed_sensor F i loc dr) = PFloat (py_round (d_level dr) 1)"
  "sensor_status (seed_sensor F i loc dr) = PStr (derive_status (py_round (d_level dr) 1))"
  by (simp_all add: seed_sensor_def sensor_level_def sensor_status_def dict_get_def Let_def)

lemma gen_sensor_fields:
  "sensor_level (gen_sensor F t i name gd) =
     PFloat (py_round (clamp_level (fadd F (base_pollution name) (g_level gd))) 1)"
  "sensor_status (gen_sensor F t i name gd) =
     PStr (derive_status (clamp_level (fadd F (base_pollution name) (g_level gd))))"
  by (simp_all add: gen_sensor_def sensor_level_def sensor_status_def dict_get_def Let_def)

text \<open>
  Claim C1, as the code has it. A record of \<open>seed_db\<close> stores the level from which its
  status was derived, so its status is the threshold function of the stored level \<open>l\<close>.
  A record of \<open>_generate_dynamic_sensor_data\<close> derives its status from the clamped level
  \<open>r\<close>, the float sum of the base level and the draw, and stores \<open>round(r, 1)\<close>: its
  status is the threshold function of \<open>r\<close>, the level before rounding.
\<close>

theorem sensor_status_from_level:
  "(sensor_level (seed_sensor F i loc dr) = PFloat l \<longrightarrow>
      (l > 8 \<longrightarrow> sensor_status (seed_sensor F i loc dr) = PStr ''critical'') \<and>
      (6 < l \<and> l \<le> 8 \<longrightarrow> sensor_status (seed_sensor F i loc dr) = PStr ''warning'') \<and>
      (l \<le> 6 \<longrightarrow> sensor_status (seed_sensor F i loc dr) = PStr ''active'')) \<and>
   (clamp_level (fadd F (base_pollution name) (g_level gd)) = r \<longrightarrow>
      sensor_level (gen_sensor F t j name gd) = PFloat (py_round r 1) \<and>
      (r > 8 \<longrightarrow> sensor_status (gen_sensor F t j name gd) = PStr ''critical'') \<and>
      (6 < r \<and> r \<le> 8 \<longrightarrow> sensor_status (gen_sensor F t j name gd) = PStr ''warning'') \<and>
      (r \<le> 6 \<longrightarrow> sensor_status (gen_sensor F t j name gd) = PStr ''active''))"
  by (auto simp add: seed_sensor_fields gen_sensor_fields derive_status_def)

theorem sensor_status_from_level_witness:
  "sensor_level (seed_sensor exact_arith 0 (''Baltic Sea'', 58, 20)
      \<lparr>d_level = 35 / 4, d_lat = 0, d_lng = 0, d_stamp = ''2025-01-01T00:00:00'',
       d_micro = 0, d_temp = 0, d_turb = 0\<rparr>) = PFloat (88 / 10) \<and>
   (88 / 10 :: real) > 8 \<and>
   sensor_status (seed_sensor exact_arith 0 (''Baltic Sea'', 58, 20)
      \<lparr>d_level = 35 / 4, d_lat = 0, d_lng = 0, d_stamp = ''2025-01-01T00:00:00'',
       d_micro = 0, d_temp = 0, d_turb = 0\<rparr>) = PStr ''critical'' \<and>
   clamp_level (fadd exact_arith (base_pollution ''Arctic Ocean'') (1 / 2)) = 7 / 2 \<and>
   (7 / 2 :: real) \<le> 6 \<and>
   sensor_status (gen_sensor exact_arith 1700000000 4 ''Arctic Ocean''
      \<lparr>g_level = 1 / 2, g_lat = 80, g_lng = 0, g_stamp = ''2025-01-01T00:00:00'',
       g_micro = 0, g_temp = 0, g_turb = 0\<rparr>) = PStr ''active''"
proof -
  have a: "sensor_level (seed_sensor exact_arith 0 (''Baltic Sea'', 58, 20)
      \<lparr>d_level = 35 / 4, d_lat = 0, d_lng = 0, d_stamp = ''2025-01-01T00:00:00'',
       d_micro = 0, d_temp = 0, d_turb = 0\<rparr>) = PFloat (88 / 10)"
    by (simp add: seed_sensor_fields py_round_def round_half_even_def Let_def)
  have b: "clamp_level (fadd exact_arith (base_pollution ''Arctic Ocean'') (1 / 2)) = 7 / 2"
    by (simp add: base_pollution_def clamp_level_def exact_arith_def)
  show ?thesis
    using a b
      sensor_status_from_level [of exact_arith 0 "(''Baltic Sea'', 58, 20)"
        "\<lparr>d_level = 35 / 4, d_lat = 0, d_lng = 0, d_stamp = ''2025-01-01T00:00:00'',
          d_micro = 0, d_temp = 0, d_turb = 0\<rparr>" "88 / 10" "''Arctic Ocean''"
        "\<lparr>g_level = 1 / 2, g_lat = 80, g_lng = 0, g_stamp = ''2025-01-01T00:00:00'',
          g_micro = 0, g_temp = 0, g_turb = 0\<rparr>" "7 / 2" 1700000000 4]
    by simp
qed

text \<open>
  Claim C1 as stated fails on \<open>_generate_dynamic_sensor_data\<close>. For the Mediterranean
  Sea (base level 8.5) and the draw \<open>-0.46875\<close> the level is \<open>8.03125\<close>, every step
  being exact in binary floating point: the status is derived as critical, and the record
  stores the level \<open>round(8.03125, 1) = 8.0\<close>, for which the claim asks for warning.
\<close>

theorem gen_sensor_status_counterexample:
  "sensor_level (gen_sensor exact_arith 1700000000 2 ''Mediterranean Sea''
      \<lparr>g_level = - (15 / 32), g_lat = 40, g_lng = 15, g_stamp = ''2025-01-01T00:00:00'',
       g_micro = 0, g_temp = 0, g_turb = 0\<rparr>) = PFloat 8 \<and>
   sensor_status (gen_sensor exact_arith 1700000000 2 ''Mediterranean Sea''
      \<lparr>g_level = - (15 / 32), g_lat = 40, g_lng = 15, g_stamp = ''2025-01-01T00:00:00'',
       g_micro = 0, g_temp = 0, g_turb = 0\<rparr>) = PStr ''critical'' \<and>
   sensor_status (gen_sensor exact_arith 1700000000 2 ''Mediterranean Sea''
      \<lparr>g_level = - (15 / 32), g_lat = 40, g_lng = 15, g_stamp = ''2025-01-01T00:00:00'',
       g_micro = 0, g_temp = 0, g_turb = 0\<rparr>) \<noteq> PStr ''warning''"
  by (simp add: gen_sensor_fields base_pollution_def clamp_level_def derive_status_def
      py_round_def round_half_even_def Let_def exact_arith_def)

text \<open>
  The status follows the machine's sum, not the exact one: where the float sum of the base
  level 8.5 and the draw is 8.0 (as it is for the draw \<open>-0.4999999999999998\<close>, whose
  exact sum lies above 8), the status is warning.
\<close>

lemma gen_sensor_rounded_sum:
  "fadd F (base_pollution ''Mediterranean Sea'') (g_level gd) = 8 \<Longrightarrow>
   sensor_status (gen_sensor F t i ''Mediterranean Sea'' gd) = PStr ''warning''"
  by (simp add: gen_sensor_fields clamp_level_def derive_status_def)

text \<open>
  Claim C8, as the code has it: a record of \<open>seed_db\<close> whose stored level is 6.4 has
  the status warning, since 6.4 is above 6 and not above 8.
\<close>

theorem seed_sensor_level_64_warning:
  "sensor_level (seed_sensor F i loc dr) = PFloat (64 / 10) \<Longrightarrow>
   sensor_status (seed_sensor F i loc dr) = PStr ''warning''"
  by (simp add: seed_sensor_fields derive_status_def)

theorem seed_sensor_level_64_warning_witness:
  "sensor_level (seed_sensor exact_arith 7 (''Indian Ocean'', - 20, 80)
      \<lparr>d_level = 51 / 8, d_lat = 0, d_lng = 0, d_stamp = ''2025-01-01T00:00:00'',
       d_micro = 0, d_temp = 0, d_turb = 0\<rparr>) = PFloat (64 / 10) \<and>
   sensor_status (seed_sensor exact_arith 7 (''Indian Ocean'', - 20, 80)
      \<lparr>d_level = 51 / 8, d_lat = 0, d_lng = 0, d_stamp = ''2025-01-01T00:00:00'',
       d_micro = 0, d_temp = 0, d_turb = 0\<rparr>) = PStr ''warning''"
proof -
  have a: "sensor_level (seed_sensor exact_arith 7 (''Indian Ocean'', - 20, 80)
      \<lparr>d_level = 51 / 8, d_lat = 0, d_lng = 0, d_stamp = ''2025-01-01T00:00:00'',
       d_micro = 0, d_temp = 0, d_turb = 0\<rparr>) = PFloat (64 / 10)"
    by (simp add: seed_sensor_fields py_round_def round_half_even_def Let_def)
  show ?thesis
    using a seed_sensor_level_64_warning [OF a] by simp
qed

text \<open>
  Claim C8 as stated fails on \<open>seed_db\<close>: the draw 6.375 is rounded to the level
  6.4, and the record that stores 6.4 has a status that is not active.
\<close>

theorem seed_sensor_level_64_counterexample:
  "sensor_level (seed_sensor exact_arith 3 (''Indian Ocean'', - 20, 80)
      \<lparr>d_level = 51 / 8, d_lat = 0, d_lng = 0, d_stamp = ''2025-01-01T00:00:00'',
       d_micro = 0, d_temp = 0, d_turb = 0\<rparr>) = PFloat (64 / 10) \<and>
   sensor_status (seed_sensor exact_arith 3 (''Indian Ocean'', - 20, 80)
      \<lparr>d_level = 51 / 8, d_lat = 0, d_lng = 0, d_stamp = ''2025-01-01T00:00:00'',
       d_micro = 0, d_temp = 0, d_turb = 0\<rparr>) \<noteq> PStr ''active''"
  by (simp add: seed_sensor_fields derive_status_def py_round_def round_half_even_def Let_def)

subsection \<open>Inserting a sensor whose key is already stored\<close>

lemma insert_one_cases:
  assumes "insert_one None d c = (err, d', c')"
  shows "(err = Some DuplicateKeyError \<and> docs c' = docs c \<and> doc_key d' \<in> set (keys_of c)) \<or>
         (err = None \<and> docs c' = docs c @ [d'] \<and> doc_key d' \<notin> set (keys_of c))"
  using assms
  by (auto simp add: insert_one_def keys_of_def Let_def split: if_splits)

lemma insert_one_present:
  assumes "dict_has d ''_id''" "doc_key d \<in> set (keys_of c)"
  shows "insert_one None d c = (Some DuplicateKeyError, d, c)"
  using assms by (simp add: insert_one_def)

lemma doc_key_stored_at:
  "doc_key (dict_set d ''stored_at'' v) = doc_key d"
  by (simp add: doc_key_def dict_get_def dict_set_def update_conv')

lemma dict_has_stored_at:
  "dict_has (dict_set d ''stored_at'' v) ''_id'' = dict_has d ''_id''"
  by (simp add: dict_has_def dict_set_def update_conv')

lemma store_loop_ok:
  assumes "\<forall>i. fault i = None" "store_loop now fault i sensors c = (err, sensors', c')"
  shows "err = None \<and>
         (\<forall>k \<in> set (keys_of c).
            filter (\<lambda>d. doc_key d = k) (docs c') = filter (\<lambda>d. doc_key d = k) (docs c)) \<and>
         (distinct (keys_of c) \<longrightarrow> distinct (keys_of c')) \<and>
         set (keys_of c) \<subseteq> set (keys_of c')"
  using assms(2)
proof (induction sensors arbitrary: i c err sensors' c')
  case Nil
  then show ?case by simp
next
  case (Cons s rest)
  obtain e1 s2 c1 where
    ins: "insert_one None (dict_set s ''stored_at'' (PDateTime (now i))) c = (e1, s2, c1)"
    by (metis prod_cases3)
  from insert_one_cases [OF ins]
  have e1: "e1 = None \<or> e1 = Some DuplicateKeyError" by auto
  obtain e r2 c2 where rec: "store_loop now fault (Suc i) rest c1 = (e, r2, c2)"
    by (metis prod_cases3)
  have fi: "fault i = None" using assms(1) by simp
  from Cons.prems ins e1 rec
  have res: "err = e" "c' = c2"
    by (auto simp add: Let_def fi)
  note ih = Cons.IH [OF rec]
  from insert_one_cases [OF ins]
  have step:
    "\<forall>k \<in> set (keys_of c).
       filter (\<lambda>d. doc_key d = k) (docs c1) = filter (\<lambda>d. doc_key d = k) (docs c)"
    "distinct (keys_of c) \<longrightarrow> distinct (keys_of c1)"
    "set (keys_of c) \<subseteq> set (keys_of c1)"
    by (auto simp add: keys_of_def)
  from ih step res show ?case
    by (auto simp add: subset_iff)
qed

lemma store_loop_all_present:
  assumes "\<forall>i. fault i = None"
    "\<forall>s \<in> set sensors. dict_has s ''_id'' \<and> doc_key s \<in> set (keys_of c)"
  shows "\<exists>sensors'. store_loop now fault i sensors c = (None, sensors', c)"
  using assms(2)
proof (induction sensors arbitrary: i)
  case Nil
  then show ?case by simp
next
  case (Cons s rest)
  have "insert_one None (dict_set s ''stored_at'' (PDateTime (now i))) c
        = (Some DuplicateKeyError, dict_set s ''stored_at'' (PDateTime (now i)), c)"
    using Cons.prems
    by (intro insert_one_present) (auto simp add: doc_key_stored_at dict_has_stored_at)
  moreover obtain r where "store_loop now fault (Suc i) rest c = (None, r, c)"
    using Cons by auto
  moreover have "fault i = None" using assms(1) by simp
  ultimately show ?case by (simp add: Let_def)
qed

lemma insert_one_keyed:
  assumes "insert_one None d c = (err, d', c')"
  shows "dict_has d' ''_id'' \<and> doc_key d' \<in> set (keys_of c')"
  using assms
  by (auto simp add: insert_one_def keys_of_def Let_def dict_has_set split: if_splits)

lemma store_loop_keyed:
  assumes "\<forall>i. fault i = None" "store_loop now fault i sensors c = (err, sensors', c')"
  shows "\<forall>s \<in> set sensors'. dict_has s ''_id'' \<and> doc_key s \<in> set (keys_of c')"
  using assms(2)
proof (induction sensors arbitrary: i c err sensors' c')
  case Nil
  then show ?case by simp
next
  case (Cons s rest)
  obtain e1 s2 c1 where
    ins: "insert_one None (dict_set s ''stored_at'' (PDateTime (now i))) c = (e1, s2, c1)"
    by (metis prod_cases3)
  from insert_one_cases [OF ins]
  have e1: "e1 = None \<or> e1 = Some DuplicateKeyError" by auto
  obtain e r2 c2 where rec: "store_loop now fault (Suc i) rest c1 = (e, r2, c2)"
    by (metis prod_cases3)
  have fi: "fault i = None" using assms(1) by simp
  from Cons.prems ins e1 rec
  have res: "sensors' = s2 # r2" "c' = c2"
    by (auto simp add: Let_def fi)
  from store_loop_ok [OF assms(1) rec]
  have mono: "set (keys_of c1) \<subseteq> set (keys_of c2)" by simp
  from insert_one_keyed [OF ins] mono
  have "dict_has s2 ''_id'' \<and> doc_key s2 \<in> set (keys_of c2)" by auto
  with Cons.IH [OF rec] res show ?case by simp
qed

lemma insert_one_document:
  assumes "insert_one None d c = (err, d', c')"
  shows "(dict_has d ''_id'' \<longrightarrow> d' = d) \<and>
         (\<not> dict_has d ''_id'' \<longrightarrow> d' = dict_set d ''_id'' (PObjectId (next_oid c)))"
  using assms
  by (auto simp add: insert_one_def Let_def split: if_splits)

lemma store_loop_stamped:
  assumes "\<forall>i. fault i = None" "store_loop now fault i sensors c = (err, sensors', c')"
  shows "length sensors' = length sensors \<and>
         (\<forall>j < length sensors.
            (dict_has (sensors ! j) ''_id'' \<longrightarrow>
               sensors' ! j = dict_set (sensors ! j) ''stored_at'' (PDateTime (now (i + j)))) \<and>
            (\<not> dict_has (sensors ! j) ''_id'' \<longrightarrow>
               (\<exists>n. sensors' ! j =
                  dict_set (dict_set (sensors ! j) ''stored_at'' (PDateTime (now (i + j))))
                    ''_id'' (PObjectId n))))"
  using assms(2)
proof (induction sensors arbitrary: i c err sensors' c')
  case Nil
  then show ?case by simp
next
  case (Cons s rest)
  obtain e1 s2 c1 where
    ins: "insert_one None (dict_set s ''stored_at'' (PDateTime (now i))) c = (e1, s2, c1)"
    by (metis prod_cases3)
  from insert_one_cases [OF ins]
  have e1: "e1 = None \<or> e1 = Some DuplicateKeyError" by auto
  obtain e r2 c2 where rec: "store_loop now fault (Suc i) rest c1 = (e, r2, c2)"
    by (metis prod_cases3)
  have fi: "fault i = None" using assms(1) by simp
  from Cons.prems ins e1 rec
  have res: "sensors' = s2 # r2"
    by (auto simp add: Let_def fi)
  from insert_one_document [OF ins]
  have head: "(dict_has s ''_id'' \<longrightarrow> s2 = dict_set s ''stored_at'' (PDateTime (now i))) \<and>
      (\<not> dict_has s ''_id'' \<longrightarrow>
         (\<exists>n. s2 = dict_set (dict_set s ''stored_at'' (PDateTime (now i))) ''_id'' (PObjectId n)))"
    by (auto simp add: dict_has_stored_at)
  note ih = Cons.IH [OF rec]
  show ?case
  proof (intro conjI allI impI)
    show "length sensors' = length (s # rest)" using ih res by simp
  next
    fix j assume j: "j < length (s # rest)" and h: "dict_has ((s # rest) ! j) ''_id''"
    show "sensors' ! j = dict_set ((s # rest) ! j) ''stored_at'' (PDateTime (now (i + j)))"
    proof (cases j)
      case 0
      with h head res show ?thesis by simp
    next
      case (Suc k)
      with j h ih res show ?thesis by simp
    qed
  next
    fix j assume j: "j < length (s # rest)" and h: "\<not> dict_has ((s # rest) ! j) ''_id''"
    show "\<exists>n. sensors' ! j =
        dict_set (dict_set ((s # rest) ! j) ''stored_at'' (PDateTime (now (i + j))))
          ''_id'' (PObjectId n)"
    proof (cases j)
      case 0
      with h head res show ?thesis by simp
    next
      case (Suc k)
      with j h ih res show ?thesis by simp
    qed
  qed
qed

lemma store_loop_added:
  assumes "\<forall>i. fault i = None" "store_loop now fault i sensors c = (err, sensors', c')"
  shows "\<exists>new. docs c' = docs c @ new \<and> set new \<subseteq> set sensors'"
  using assms(2)
proof (induction sensors arbitrary: i c err sensors' c')
  case Nil
  then show ?case by simp
next
  case (Cons s rest)
  obtain e1 s2 c1 where
    ins: "insert_one None (dict_set s ''stored_at'' (PDateTime (now i))) c = (e1, s2, c1)"
    by (metis prod_cases3)
  from insert_one_cases [OF ins]
  have e1: "e1 = None \<or> e1 = Some DuplicateKeyError" by auto
  obtain e r2 c2 where rec: "store_loop now fault (Suc i) rest c1 = (e, r2, c2)"
    by (metis prod_cases3)
  have fi: "fault i = None" using assms(1) by simp
  from Cons.prems ins e1 rec
  have res: "sensors' = s2 # r2" "c' = c2"
    by (auto simp add: Let_def fi)
  from Cons.IH [OF rec]
  obtain new where new: "docs c2 = docs c1 @ new" "set new \<subseteq> set r2" by blast
  from insert_one_cases [OF ins]
  have "docs c1 = docs c \<or> docs c1 = docs c @ [s2]" by auto
  then show ?case
  proof
    assume "docs c1 = docs c"
    with new res show ?thesis by auto
  next
    assume "docs c1 = docs c @ [s2]"
    with new res have "docs c' = docs c @ (s2 # new)" "set (s2 # new) \<subseteq> set sensors'"
      by auto
    then show ?thesis by blast
  qed
qed

text \<open>
  Claim C2. When no call of the driver fails for a reason other than a duplicate key,
  \<open>store_sensor_data\<close> returns \<open>True\<close> for every list of sensors (it is a total
  function: no exception leaves it). Every key that was in the collection keeps exactly
  the documents it had, so an insert of a sensor with a stored key creates no duplicate;
  keys that were unique stay unique; and when every sensor of the list carries a stored
  key, the collection is unchanged. The loop goes on past a duplicate: every sensor of
  the list comes back stamped with \<open>stored_at\<close> (and with a new \<open>_id\<close> if it had
  none), the key of every one of them is in the collection afterwards, and the documents
  added to the collection are sensors of the list.
\<close>

theorem store_sensor_data_duplicate_key:
  assumes "\<forall>i. fault i = None"
    and "store_sensor_data now fault sensor_data c = (ok, sensors', c')"
  shows "ok \<and>
         (\<forall>k \<in> set (keys_of c).
            filter (\<lambda>d. doc_key d = k) (docs c') = filter (\<lambda>d. doc_key d = k) (docs c)) \<and>
         (distinct (keys_of c) \<longrightarrow> distinct (keys_of c')) \<and>
         ((\<forall>s \<in> set sensor_data. dict_has s ''_id'' \<and> doc_key s \<in> set (keys_of c))
            \<longrightarrow> c' = c) \<and>
         length sensors' = length sensor_data \<and>
         (\<forall>j < length sensor_data.
            (dict_has (sensor_data ! j) ''_id'' \<longrightarrow>
               sensors' ! j = dict_set (sensor_data ! j) ''stored_at'' (PDateTime (now j))) \<and>
            (\<not> dict_has (sensor_data ! j) ''_id'' \<longrightarrow>
               (\<exists>n. sensors' ! j =
                  dict_set (dict_set (sensor_data ! j) ''stored_at'' (PDateTime (now j)))
                    ''_id'' (PObjectId n)))) \<and>
         (\<forall>s \<in> set sensors'. dict_has s ''_id'' \<and> doc_key s \<in> set (keys_of c')) \<and>
         (\<exists>new. docs c' = docs c @ new \<and> set new \<subseteq> set sensors')"
proof -
  obtain err where loop: "store_loop now fault 0 sensor_data c = (err, sensors', c')"
    and ok: "ok = (err = None)"
    using assms(2) by (auto simp add: store_sensor_data_def Let_def split: prod.splits)
  from store_loop_ok [OF assms(1) loop] ok
  have "ok"
    and "\<forall>k \<in> set (keys_of c).
           filter (\<lambda>d. doc_key d = k) (docs c') = filter (\<lambda>d. doc_key d = k) (docs c)"
    and "distinct (keys_of c) \<longrightarrow> distinct (keys_of c')"
    by auto
  moreover have
    "(\<forall>s \<in> set sensor_data. dict_has s ''_id'' \<and> doc_key s \<in> set (keys_of c)) \<longrightarrow> c' = c"
    using store_loop_all_present [OF assms(1), of sensor_data c now 0] loop by auto
  moreover from store_loop_stamped [OF assms(1) loop]
  have "length sensors' = length sensor_data"
    and "\<forall>j < length sensor_data.
            (dict_has (sensor_data ! j) ''_id'' \<longrightarrow>
               sensors' ! j = dict_set (sensor_data ! j) ''stored_at'' (PDateTime (now j))) \<and>
            (\<not> dict_has (sensor_data ! j) ''_id'' \<longrightarrow>
               (\<exists>n. sensors' ! j =
                  dict_set (dict_set (sensor_data ! j) ''stored_at'' (PDateTime (now j)))
                    ''_id'' (PObjectId n)))"
    by simp_all
  moreover note store_loop_keyed [OF assms(1) loop] store_loop_added [OF assms(1) loop]
  ultimately show ?thesis by blast
qed

text \<open>
  An instance: a sensor whose \<open>_id\<close> is in the collection is stored, followed by a new
  sensor: the call succeeds, the stored key keeps its single document, and the new
  sensor is stored after the duplicate was passed over.
\<close>

theorem store_sensor_data_duplicate_key_witness:
  "store_sensor_data (\<lambda>i. 100 + i) (\<lambda>i. None)
     [[(''id'', PStr ''sensor_001''), (''_id'', PStr ''65a1'')], [(''id'', PStr ''sensor_002'')]]
     \<lparr>docs = [[(''id'', PStr ''sensor_001''), (''_id'', PStr ''65a1'')]], next_oid = 5\<rparr>
   = (True,
      [[(''id'', PStr ''sensor_001''), (''_id'', PStr ''65a1''), (''stored_at'', PDateTime 100)],
       [(''id'', PStr ''sensor_002''), (''stored_at'', PDateTime 101), (''_id'', PObjectId 5)]],
      \<lparr>docs = [[(''id'', PStr ''sensor_001''), (''_id'', PStr ''65a1'')],
               [(''id'', PStr ''sensor_002''), (''stored_at'', PDateTime 101),
                (''_id'', PObjectId 5)]],
       next_oid = 6\<rparr>) \<and>
   filter (\<lambda>d. doc_key d = PStr ''65a1'')
     [[(''id'', PStr ''sensor_001''), (''_id'', PStr ''65a1'')],
      [(''id'', PStr ''sensor_002''), (''stored_at'', PDateTime 101), (''_id'', PObjectId 5)]]
   = [[(''id'', PStr ''sensor_001''), (''_id'', PStr ''65a1'')]]"
proof -
  have nofault: "\<forall>i::nat. (\<lambda>i. None :: py_error option) i = None" by simp
  have run: "store_sensor_data (\<lambda>i. 100 + i) (\<lambda>i. None)
     [[(''id'', PStr ''sensor_001''), (''_id'', PStr ''65a1'')], [(''id'', PStr ''sensor_002'')]]
     \<lparr>docs = [[(''id'', PStr ''sensor_001''), (''_id'', PStr ''65a1'')]], next_oid = 5\<rparr>
   = (True,
      [[(''id'', PStr ''sensor_001''), (''_id'', PStr ''65a1''), (''stored_at'', PDateTime 100)],
       [(''id'', PStr ''sensor_002''), (''stored_at'', PDateTime 101), (''_id'', PObjectId 5)]],
      \<lparr>docs = [[(''id'', PStr ''sensor_001''), (''_id'', PStr ''65a1'')],
               [(''id'', PStr ''sensor_002''), (''stored_at'', PDateTime 101),
                (''_id'', PObjectId 5)]],
       next_oid = 6\<rparr>)"
    by (simp add: store_sensor_data_def insert_one_def dict_set_def dict_has_def doc_key_def
        dict_get_def keys_of_def Let_def)
  show ?thesis
    using run store_sensor_data_duplicate_key [OF nofault run]
    by (simp add: keys_of_def doc_key_def dict_get_def)
qed

text \<open>
  Storing the same list a second time, as the first call left it (each sensor now
  carries its \<open>_id\<close>), succeeds and leaves the collection as it was.
\<close>

lemma store_sensor_data_again:
  assumes "\<forall>i. fault i = None"
    and "store_sensor_data now fault sensor_data c = (ok, sensors', c')"
    and "store_sensor_data now' fault sensors' c' = (ok', sensors'', c'')"
  shows "ok' \<and> c'' = c'"
proof -
  obtain err where loop: "store_loop now fault 0 sensor_data c = (err, sensors', c')"
    using assms(2) by (auto simp add: store_sensor_data_def Let_def split: prod.splits)
  from store_loop_keyed [OF assms(1) loop]
  have keyed: "\<forall>s \<in> set sensors'. dict_has s ''_id'' \<and> doc_key s \<in> set (keys_of c')" .
  from store_loop_all_present [OF assms(1) keyed, of now' 0]
  obtain r where "store_loop now' fault 0 sensors' c' = (None, r, c')" by blast
  with assms(3) show ?thesis
    by (simp add: store_sensor_data_def)
qed

subsection \<open>Aggregation over empty collections\<close>

text \<open>
  Claim C3. Over empty collections \<open>get_pollution_statistics\<close> returns zero reports in
  total, zero reports today and no region, and \<open>get_cleanup_data\<close> returns zero robots
  of each kind, zero waste, zero hotspots addressed, zero active missions and an empty
  \<open>next_deployment\<close>. Both are total functions, and when the store raises (\<open>Some e\<close>,
  \<open>Inl e\<close>) they return the same zeroed summaries instead of the exception.
\<close>

theorem empty_collection_aggregates:
  "get_pollution_statistics None today [] [] =
     [(''total_reports'', PInt 0), (''reports_today'', PInt 0), (''region_statistics'', PList [])] \<and>
   get_pollution_statistics (Some e) today pollution_reports sensors =
     [(''total_reports'', PInt 0), (''reports_today'', PInt 0), (''region_statistics'', PList [])] \<and>
   get_cleanup_data (Inr []) =
     [(''active_missions'', PInt 0),
      (''cleanup_robots'',
         PDict [(''ocean_drones'', PInt 0), (''surface_vessels'', PInt 0),
                (''underwater_units'', PInt 0)]),
      (''waste_collected_today'', PInt 0),
      (''hotspots_addressed'', PInt 0),
      (''next_deployment'', PStr [])] \<and>
   get_cleanup_data (Inl e) =
     [(''active_missions'', PInt 0),
      (''cleanup_robots'',
         PDict [(''ocean_drones'', PInt 0), (''surface_vessels'', PInt 0),
                (''underwater_units'', PInt 0)]),
      (''waste_collected_today'', PInt 0),
      (''hotspots_addressed'', PInt 0),
      (''next_deployment'', PStr [])]"
  by (simp add: get_pollution_statistics_def empty_statistics_def sort_desc_def
      group_by_location_def get_cleanup_data_def cleanup_fallback_def cleanup_init_def)

text \<open>The two aggregations on small collections that are not empty.\<close>

lemma get_cleanup_data_example:
  "get_cleanup_data
     (Inr [[(''mission_id'', PStr ''mission_000''), (''status'', PStr ''active''),
            (''robots'', PDict [(''ocean_drones'', PInt 4), (''surface_vessels'', PInt 2),
                                (''underwater_units'', PInt 1)]),
            (''waste_collected'', PInt 1200), (''next_deployment'', PStr ''North Sea'')],
           [(''mission_id'', PStr ''mission_001''), (''status'', PStr ''completed''),
            (''robots'', PDict [(''ocean_drones'', PInt 3)]),
            (''waste_collected'', PInt 800), (''next_deployment'', PStr ''Baltic Sea'')]])
   = [(''active_missions'', PInt 1),
      (''cleanup_robots'',
         PDict [(''ocean_drones'', PInt 7), (''surface_vessels'', PInt 2),
                (''underwater_units'', PInt 1)]),
      (''waste_collected_today'', PInt 2000),
      (''hotspots_addressed'', PInt 1),
      (''next_deployment'', PStr ''North Sea'')]"
  by (simp add: get_cleanup_data_def cleanup_step_def cleanup_init_def py_add_def dict_get_def)

lemma get_cleanup_data_bad_field:
  "get_cleanup_data
     (Inr [[(''mission_id'', PStr ''mission_000''), (''status'', PStr ''active''),
            (''waste_collected'', PStr ''a lot'')]])
   = cleanup_fallback"
  by (simp add: get_cleanup_data_def cleanup_step_def cleanup_init_def py_add_def dict_get_def)

lemma get_pollution_statistics_example:
  "get_pollution_statistics None 100
     [[(''reported_at'', PDateTime 50)], [(''reported_at'', PDateTime 150)]]
     [[(''location'', PStr ''North Sea''), (''pollution_level'', PFloat 4)],
      [(''location'', PStr ''Baltic Sea''), (''pollution_level'', PFloat 7)],
      [(''location'', PStr ''North Sea''), (''pollution_level'', PInt 6)]]
   = [(''total_reports'', PInt 2), (''reports_today'', PInt 1),
      (''region_statistics'',
         PList [PDict [(''_id'', PStr ''Baltic Sea''), (''avg_pollution'', PFloat 7),
                       (''count'', PInt 1)],
                PDict [(''_id'', PStr ''North Sea''), (''avg_pollution'', PFloat 5),
                       (''count'', PInt 2)]])]"
  by (simp add: get_pollution_statistics_def reported_since_def dict_get_def sort_desc_def
      group_by_location_def group_avg_def List.map_filter_def avg_geq_def Let_def)

subsection \<open>Predictions copy the current level\<close>

lemma recent_keeps_field:
  "k \<noteq> ''_id'' \<Longrightarrow> i < length data \<Longrightarrow>
   dict_get (get_recent_sensor_data L (Inr data) ! i) k dflt = dict_get (data ! i) k dflt"
  by (simp add: get_recent_sensor_data_def dict_get_set_other)

lemma prediction_entry_fields:
  "dict_get (prediction_entry s) ''current_level'' PNone = dict_get s ''pollution_level'' (PInt 0)"
  "dict_get (prediction_entry s) ''predicted_7days'' PNone = dict_get s ''pollution_level'' (PInt 0)"
  "dict_get (prediction_entry s) ''predicted_30days'' PNone = dict_get s ''pollution_level'' (PInt 0)"
  "dict_get (prediction_entry s) ''trend'' PNone = PStr ''stable''"
  "dict_get (prediction_entry s) ''confidence'' PNone = PInt 90"
  by (simp_all add: prediction_entry_def dict_get_def)

text \<open>
  Claim C6. For the sensors \<open>data\<close> that the store yields, \<open>get_prediction_data\<close>
  returns one entry per sensor, and the entry of sensor \<open>i\<close> carries the sensor's
  pollution level (0 when the sensor has none) as \<open>current_level\<close>,
  \<open>predicted_7days\<close> and \<open>predicted_30days\<close> alike, the trend stable and the
  confidence 90.
\<close>

theorem prediction_copies_level:
  assumes "i < length data"
  shows "length (get_prediction_data L (Inr data)) = length data \<and>
     dict_get (get_prediction_data L (Inr data) ! i) ''current_level'' PNone
       = dict_get (data ! i) ''pollution_level'' (PInt 0) \<and>
     dict_get (get_prediction_data L (Inr data) ! i) ''predicted_7days'' PNone
       = dict_get (get_prediction_data L (Inr data) ! i) ''current_level'' PNone \<and>
     dict_get (get_prediction_data L (Inr data) ! i) ''predicted_30days'' PNone
       = dict_get (get_prediction_data L (Inr data) ! i) ''current_level'' PNone \<and>
     dict_get (get_prediction_data L (Inr data) ! i) ''trend'' PNone = PStr ''stable'' \<and>
     dict_get (get_prediction_data L (Inr data) ! i) ''confidence'' PNone = PInt 90"
proof -
  have len: "length (get_recent_sensor_data L (Inr data)) = length data"
    by (simp add: get_recent_sensor_data_def)
  with assms have ne: "get_recent_sensor_data L (Inr data) \<noteq> []" by auto
  have eq: "get_prediction_data L (Inr data)
      = map prediction_entry (get_recent_sensor_data L (Inr data))"
    using ne by (simp add: get_prediction_data_def Let_def)
  have lvl: "dict_get (get_recent_sensor_data L (Inr data) ! i) ''pollution_level'' (PInt 0)
        = dict_get (data ! i) ''pollution_level'' (PInt 0)"
    using assms by (intro recent_keeps_field) simp_all
  show ?thesis
    using assms len lvl by (simp add: eq prediction_entry_fields)
qed

theorem prediction_copies_level_witness:
  "(1::nat) < length [[(''_id'', PObjectId 11), (''location'', PStr ''North Sea''),
                       (''pollution_level'', PFloat (68 / 10))],
                      [(''_id'', PObjectId 12), (''location'', PStr ''Baltic Sea''),
                       (''pollution_level'', PFloat (39 / 10))]] \<and>
   dict_get (get_prediction_data example_library
      (Inr [[(''_id'', PObjectId 11), (''location'', PStr ''North Sea''),
             (''pollution_level'', PFloat (68 / 10))],
            [(''_id'', PObjectId 12), (''location'', PStr ''Baltic Sea''),
             (''pollution_level'', PFloat (39 / 10))]]) ! 1) ''current_level'' PNone
     = PFloat (39 / 10) \<and>
   dict_get (get_prediction_data example_library
      (Inr [[(''_id'', PObjectId 11), (''location'', PStr ''North Sea''),
             (''pollution_level'', PFloat (68 / 10))],
            [(''_id'', PObjectId 12), (''location'', PStr ''Baltic Sea''),
             (''pollution_level'', PFloat (39 / 10))]]) ! 1) ''predicted_7days'' PNone
     = PFloat (39 / 10) \<and>
   dict_get (get_prediction_data example_library
      (Inr [[(''_id'', PObjectId 11), (''location'', PStr ''North Sea''),
             (''pollution_level'', PFloat (68 / 10))],
            [(''_id'', PObjectId 12), (''location'', PStr ''Baltic Sea''),
             (''pollution_level'', PFloat (39 / 10))]]) ! 1) ''predicted_30days'' PNone
     = PFloat (39 / 10) \<and>
   dict_get (get_prediction_data example_library
      (Inr [[(''_id'', PObjectId 11), (''location'', PStr ''North Sea''),
             (''pollution_level'', PFloat (68 / 10))],
            [(''_id'', PObjectId 12), (''location'', PStr ''Baltic Sea''),
             (''pollution_level'', PFloat (39 / 10))]]) ! 1) ''confidence'' PNone
     = PInt 90"
proof -
  have h: "(1::nat) < length [[(''_id'', PObjectId 11), (''location'', PStr ''North Sea''),
                       (''pollution_level'', PFloat (68 / 10))],
                      [(''_id'', PObjectId 12), (''location'', PStr ''Baltic Sea''),
                       (''pollution_level'', PFloat (39 / 10))]]"
    by simp
  show ?thesis
    using h prediction_copies_level [OF h, of example_library]
    by (simp add: dict_get_def)
qed

subsection \<open>Simulated transcription is determined by the audio\<close>

lemma simulate_in_samples:
  "simulate_transcription L audio = sample_transcripts ! (unat (md5 L audio) mod 5) \<and>
   simulate_transcription L audio \<in> set sample_transcripts"
proof -
  have len: "length sample_transcripts = 5" by (simp add: sample_transcripts_def)
  have "unat (md5 L audio) mod 5 < length sample_transcripts" using len by simp
  then have "sample_transcripts ! (unat (md5 L audio) mod 5) \<in> set sample_transcripts"
    by (rule nth_mem)
  then show ?thesis by (simp add: simulate_transcription_def Let_def len)
qed

lemma job_result:
  "create_transcription_job L A t1 t2 now audio job_name language_code = PDict r \<Longrightarrow>
   dict_get r ''transcript'' PNone = PStr (simulate_transcription L audio)"
  by (auto simp add: create_transcription_job_def Let_def dict_get_def split: option.splits)

text \<open>
  Claim C10. The simulated transcript is the sample at index MD5(audio) mod 5, one of the
  five samples. Two transcription jobs on the same audio that return a result return the
  same transcript, whatever their clocks, job names, languages and cloud operations; and
  a job returns a result whenever the bucket creation and the upload succeed.
\<close>

theorem transcription_deterministic:
  "simulate_transcription L audio = sample_transcripts ! (unat (md5 L audio) mod 5) \<and>
   simulate_transcription L audio \<in> set sample_transcripts \<and>
   (create_transcription_job L A t1 t2 now audio job_name language_code = PDict r \<longrightarrow>
    create_transcription_job L A' t1' t2' now' audio job_name' language_code' = PDict r' \<longrightarrow>
      dict_get r ''transcript'' PNone = dict_get r' ''transcript'' PNone \<and>
      dict_get r ''transcript'' PNone = PStr (simulate_transcription L audio)) \<and>
   ((\<forall>bucket. s3_create_bucket A bucket = None) \<longrightarrow>
    (\<forall>bucket key. s3_put_object A bucket key audio = None) \<longrightarrow>
      (\<exists>r. create_transcription_job L A t1 t2 now audio job_name language_code = PDict r))"
  using simulate_in_samples [of L audio]
  by (auto simp add: job_result) (simp add: create_transcription_job_def Let_def)

theorem transcription_deterministic_witness:
  "\<exists>r r'.
     create_transcription_job example_library working_aws 1700000000 1700000001 5 ''RIFF''
       PNone (PStr ''en-US'') = PDict r \<and>
     create_transcription_job example_library working_aws 1700000500 1700000501 9 ''RIFF''
       (PStr ''job-2'') (PStr ''es-US'') = PDict r' \<and>
     dict_get r ''transcript'' PNone = dict_get r' ''transcript'' PNone \<and>
     dict_get r ''transcript'' PNone = PStr (sample_transcripts ! 4)"
proof -
  have a: "\<forall>bucket. s3_create_bucket working_aws bucket = None"
    and b: "\<forall>bucket key. s3_put_object working_aws bucket key ''RIFF'' = None"
    by (simp_all add: working_aws_def)
  have idx: "unat (md5 example_library ''RIFF'') mod 5 = 4"
    by (simp add: example_library_def)
  from transcription_deterministic [of example_library "''RIFF''" working_aws] a b
  obtain r where r: "create_transcription_job example_library working_aws 1700000000
      1700000001 5 ''RIFF'' PNone (PStr ''en-US'') = PDict r"
    by blast
  from transcription_deterministic [of example_library "''RIFF''" working_aws] a b
  obtain r' where r': "create_transcription_job example_library working_aws 1700000500
      1700000501 9 ''RIFF'' (PStr ''job-2'') (PStr ''es-US'') = PDict r'"
    by blast
  from transcription_deterministic [of example_library "''RIFF''" working_aws
      1700000000 1700000001 5 PNone "PStr ''en-US''" r working_aws
      1700000500 1700000501 9 "PStr ''job-2''" "PStr ''es-US''" r'] r r' idx
  have "dict_get r ''transcript'' PNone = dict_get r' ''transcript'' PNone \<and>
        dict_get r ''transcript'' PNone = PStr (sample_transcripts ! 4)"
    by metis
  with r r' show ?thesis by blast
qed

subsection \<open>Gateway wrappers fail soft\<close>

lemma lex_status: "dict_item (get_lex_bot_status L now) ''bot_status'' = Inr (PStr ''active'')"
  by (simp add: get_lex_bot_status_def dict_item_def)

lemma job_put_fails:
  "s3_put_object A (''pollution-audio-'' @ dec_str time2)
      (''audio/''
         @ py_str L (if \<not> truthy job_name then PStr (''transcribe-pollution-'' @ dec_str time1)
                     else job_name)
         @ ''.mp3'')
      audio_data = Some e \<Longrightarrow>
   create_transcription_job L A time1 time2 now audio_data job_name language_code = PNone"
  by (cases "s3_create_bucket A (''pollution-audio-'' @ dec_str time2)")
     (simp_all add: create_transcription_job_def Let_def)

lemma backup_list_fails:
  "s3_head_bucket A source_bucket = None \<Longrightarrow> s3_list_objects_v2 A source_bucket = Inl e \<Longrightarrow>
   create_backup_snapshot L A t_name t_stamp t_copy source_bucket backup_bucket = PNone"
  by (simp add: create_backup_snapshot_def copy_source_def Let_def split: option.splits)

lemma backup_head_fails:
  "s3_head_bucket A source_bucket = Some e \<Longrightarrow>
   create_backup_snapshot L A t_name t_stamp t_copy source_bucket (Some (b # bs)) =
        PDict [(''source_bucket'', PStr source_bucket),
               (''backup_bucket'', PStr (b # bs)),
               (''objects_backed_up'', PInt 5),
               (''backup_timestamp'', PStr (isoformat L t_stamp)),
               (''status'', PStr ''completed_simulated''),
               (''note'', PStr ''Demo backup - source bucket not accessible'')]"
  by (simp add: create_backup_snapshot_def)

text \<open>
  Claim C4, as the code has it. None of the wrappers modelled here lets an exception of
  its external operation out: each is a total function of the operation's outcome. When
  the operation raises an error \<open>e\<close>, \<open>synthesize_speech\<close> returns \<open>None\<close>,
  \<open>analyze_image\<close>, \<open>list_iot_sensors\<close>, \<open>get_sagemaker_models\<close> and
  \<open>get_s3_bucket_info\<close> return the empty list, and \<open>create_transcription_job\<close> returns
  \<open>None\<close> (for a failed bucket creation and for a failed upload): a fixed value that
  does not depend on \<open>e\<close>. \<open>get_comprehensive_aws_status\<close>, which has no handler of its
  own, never raises, and reports zero sensors, models and buckets when the three listings
  fail. \<open>process_citizen_chat_report\<close> calls no external operation and always returns
  an object of the same shape. \<open>create_backup_snapshot\<close> returns \<open>None\<close> when the
  listing of the source fails, but when the check of the source bucket fails it returns a
  simulated backup that names its arguments and reports completion.
\<close>

theorem gateway_fail_soft:
  "(polly_synthesize_speech A text voice_id = Inl e \<longrightarrow> synthesize_speech A text voice_id = PNone) \<and>
   (rekognition_detect_labels A image_data = Inl e \<longrightarrow> analyze_image A image_data = PList []) \<and>
   (iot_list_things A = Inl e \<longrightarrow> list_iot_sensors A = []) \<and>
   (sagemaker_list_models A = Inl e \<longrightarrow> get_sagemaker_models L A = []) \<and>
   (s3_list_buckets A = Inl e \<longrightarrow> get_s3_bucket_info L A = []) \<and>
   (s3_create_bucket A (''pollution-audio-'' @ dec_str time2) = Some e \<longrightarrow>
      create_transcription_job L A time1 time2 now audio_data job_name language_code = PNone) \<and>
   (s3_put_object A (''pollution-audio-'' @ dec_str time2)
      (''audio/''
         @ py_str L (if \<not> truthy job_name then PStr (''transcribe-pollution-'' @ dec_str time1)
                     else job_name)
         @ ''.mp3'')
      audio_data = Some e \<longrightarrow>
      create_transcription_job L A time1 time2 now audio_data job_name language_code = PNone) \<and>
   (iot_list_things A = Inl e1 \<and> sagemaker_list_models A = Inl e2 \<and> s3_list_buckets A = Inl e3 \<longrightarrow>
      get_comprehensive_aws_status L A now1 now2 =
        Inr [(''iot_sensors'', PInt 0),
             (''lambda_functions'', PStr ''Available for data processing''),
             (''sagemaker_models'', PInt 0),
             (''bedrock_ai'', PStr ''Active - Claude 3 Sonnet''),
             (''polly_voices'', PStr ''Available - Multiple languages''),
             (''transcribe_jobs'', PStr ''Ready for audio processing''),
             (''rekognition_api'', PStr ''Active - Image analysis ready''),
             (''lex_bots'', PStr ''active''),
             (''s3_storage'', PInt 0),
             (''last_health_check'', PStr (isoformat L now2))]) \<and>
   (\<exists>report. get_comprehensive_aws_status L A now1 now2 = Inr report) \<and>
   map fst (process_citizen_chat_report L time now chat_message session_id) =
     [''session_id'', ''user_message'', ''bot_response'', ''analysis'', ''timestamp''] \<and>
   (s3_head_bucket A source_bucket = None \<and> s3_list_objects_v2 A source_bucket = Inl e \<longrightarrow>
      create_backup_snapshot L A t_name t_stamp t_copy source_bucket backup_bucket = PNone) \<and>
   (s3_head_bucket A source_bucket = Some e \<longrightarrow>
      create_backup_snapshot L A t_name t_stamp t_copy source_bucket (Some (b # bs)) =
        PDict [(''source_bucket'', PStr source_bucket),
               (''backup_bucket'', PStr (b # bs)),
               (''objects_backed_up'', PInt 5),
               (''backup_timestamp'', PStr (isoformat L t_stamp)),
               (''status'', PStr ''completed_simulated''),
               (''note'', PStr ''Demo backup - source bucket not accessible'')])"
proof -
  have "(polly_synthesize_speech A text voice_id = Inl e \<longrightarrow> synthesize_speech A text voice_id = PNone)"
    by (simp add: synthesize_speech_def)
  moreover have "(rekognition_detect_labels A image_data = Inl e \<longrightarrow> analyze_image A image_data = PList [])"
    by (simp add: analyze_image_def)
  moreover have "(iot_list_things A = Inl e \<longrightarrow> list_iot_sensors A = [])"
    by (simp add: list_iot_sensors_def)
  moreover have "(sagemaker_list_models A = Inl e \<longrightarrow> get_sagemaker_models L A = [])"
    by (simp add: get_sagemaker_models_def)
  moreover have "(s3_list_buckets A = Inl e \<longrightarrow> get_s3_bucket_info L A = [])"
    by (simp add: get_s3_bucket_info_def)
  moreover have "(s3_create_bucket A (''pollution-audio-'' @ dec_str time2) = Some e \<longrightarrow>
        create_transcription_job L A time1 time2 now audio_data job_name language_code = PNone)"
    by (simp add: create_transcription_job_def Let_def)
  moreover have "(s3_put_object A (''pollution-audio-'' @ dec_str time2)
        (''audio/''
           @ py_str L (if \<not> truthy job_name then PStr (''transcribe-pollution-'' @ dec_str time1)
                       else job_name)
           @ ''.mp3'')
        audio_data = Some e \<longrightarrow>
        create_transcription_job L A time1 time2 now audio_data job_name language_code = PNone)"
    using job_put_fails by blast
  moreover have "(iot_list_things A = Inl e1 \<and> sagemaker_list_models A = Inl e2 \<and> s3_list_buckets A = Inl e3 \<longrightarrow>
        get_comprehensive_aws_status L A now1 now2 =
          Inr [(''iot_sensors'', PInt 0),
               (''lambda_functions'', PStr ''Available for data processing''),
               (''sagemaker_models'', PInt 0),
               (''bedrock_ai'', PStr ''Active - Claude 3 Sonnet''),
               (''polly_voices'', PStr ''Available - Multiple languages''),
               (''transcribe_jobs'', PStr ''Ready for audio processing''),
               (''rekognition_api'', PStr ''Active - Image analysis ready''),
               (''lex_bots'', PStr ''active''),
               (''s3_storage'', PInt 0),
               (''last_health_check'', PStr (isoformat L now2))])"
    by (simp add: get_comprehensive_aws_status_def lex_status bind_err_def
        list_iot_sensors_def get_sagemaker_models_def get_s3_bucket_info_def)
  moreover have "(\<exists>report. get_comprehensive_aws_status L A now1 now2 = Inr report)"
    by (simp add: get_comprehensive_aws_status_def lex_status bind_err_def)
  moreover have "map fst (process_citizen_chat_report L time now chat_message session_id) =
       [''session_id'', ''user_message'', ''bot_response'', ''analysis'', ''timestamp'']"
    by (simp add: process_citizen_chat_report_def Let_def)
  moreover have "(s3_head_bucket A source_bucket = None \<and> s3_list_objects_v2 A source_bucket = Inl e \<longrightarrow>
        create_backup_snapshot L A t_name t_stamp t_copy source_bucket backup_bucket = PNone)"
    using backup_list_fails by blast
  moreover have "(s3_head_bucket A source_bucket = Some e \<longrightarrow>
        create_backup_snapshot L A t_name t_stamp t_copy source_bucket (Some (b # bs)) =
          PDict [(''source_bucket'', PStr source_bucket),
                 (''backup_bucket'', PStr (b # bs)),
                 (''objects_backed_up'', PInt 5),
                 (''backup_timestamp'', PStr (isoformat L t_stamp)),
                 (''status'', PStr ''completed_simulated''),
                 (''note'', PStr ''Demo backup - source bucket not accessible'')])"
    using backup_head_fails by blast
  ultimately show ?thesis by blast
qed

theorem gateway_fail_soft_witness:
  "polly_synthesize_speech failing_aws (PStr ''Algae bloom warning'') (PStr ''Joanna'')
     = Inl (ServiceError ''AccessDenied'') \<and>
   synthesize_speech failing_aws (PStr ''Algae bloom warning'') (PStr ''Joanna'') = PNone \<and>
   analyze_image failing_aws ''JFIF'' = PList [] \<and>
   list_iot_sensors failing_aws = [] \<and>
   get_sagemaker_models example_library failing_aws = [] \<and>
   get_s3_bucket_info example_library failing_aws = [] \<and>
   create_transcription_job example_library failing_aws 1700000000 1700000001 5 ''RIFF'' PNone
     (PStr ''en-US'') = PNone \<and>
   create_backup_snapshot example_library failing_aws 1 2 (\<lambda>k. 3) ''sensor-data''
     (Some ''sensor-backup'') =
     PDict [(''source_bucket'', PStr ''sensor-data''),
            (''backup_bucket'', PStr ''sensor-backup''),
            (''objects_backed_up'', PInt 5),
            (''backup_timestamp'', PStr ''2025-01-01T00:00:00''),
            (''status'', PStr ''completed_simulated''),
            (''note'', PStr ''Demo backup - source bucket not accessible'')]"
  using gateway_fail_soft [of failing_aws "PStr ''Algae bloom warning''" "PStr ''Joanna''"
      "ServiceError ''AccessDenied''" "''JFIF''" example_library 1700000001 1700000000 5 "''RIFF''"
      PNone "PStr ''en-US''" _ _ _ _ _ _ _ _ "''sensor-data''" 1 2 "\<lambda>k. 3" _
      "CHR ''s''" "''ensor-backup''"]
  by (simp add: failing_aws_def example_library_def)

text \<open>
  Claim C4 as stated fails on \<open>create_backup_snapshot\<close>. When the check of the source
  bucket raises, the wrapper returns neither \<open>None\<close> nor an empty list nor a fixed
  object, but a backup report with the status \<open>completed_simulated\<close> that differs with
  the bucket it was asked to back up.
\<close>

theorem create_backup_snapshot_counterexample:
  "s3_head_bucket failing_aws ''sensor-data'' = Some (ServiceError ''AccessDenied'') \<and>
   create_backup_snapshot example_library failing_aws 1 2 (\<lambda>k. 3) ''sensor-data'' None =
     PDict [(''source_bucket'', PStr ''sensor-data''),
            (''backup_bucket'', PStr ''pollution-backup-20250101-000000''),
            (''objects_backed_up'', PInt 5),
            (''backup_timestamp'', PStr ''2025-01-01T00:00:00''),
            (''status'', PStr ''completed_simulated''),
            (''note'', PStr ''Demo backup - source bucket not accessible'')] \<and>
   create_backup_snapshot example_library failing_aws 1 2 (\<lambda>k. 3) ''sensor-data'' None
     \<noteq> create_backup_snapshot example_library failing_aws 1 2 (\<lambda>k. 3) ''report-images'' None"
  by (simp add: create_backup_snapshot_def failing_aws_def example_library_def)

text \<open>A backup that goes through: one object listed and copied.\<close>

lemma create_backup_snapshot_example:
  "create_backup_snapshot example_library working_aws 1 2 (\<lambda>k. 3) ''sensor-data'' None =
     PDict [(''source_bucket'', PStr ''sensor-data''),
            (''backup_bucket'', PStr ''pollution-backup-20250101-000000''),
            (''objects_backed_up'', PInt 1),
            (''backup_timestamp'', PStr ''2025-01-01T00:00:00''),
            (''status'', PStr ''completed'')]"
  by (simp add: create_backup_snapshot_def copy_source_def working_aws_def example_library_def
      bind_err_def get_or_def dict_get_def py_iter_def subscript_def dict_item_def)

subsection \<open>Statuses of the HTTP handlers\<close>





subsection \<open>The sample reading of the Mediterranean Sea\<close>

lemma sample_third:
  "sample_sensors stamp ! 2 =
     sample_sensor (stamp 2) 2
       (''Mediterranean Sea'', 437696 / 10000, 112558 / 10000, 91 / 10, ''warning'')"
  by (simp add: sample_sensors_def sample_rows_def enumerate_eq_zip upt_rec numeral_2_eq_2)

lemma initialize_sample_data_stored:
  "snd (initialize_sample_data None stamp now (\<lambda>i. None) \<lparr>docs = [], next_oid = 0\<rparr>) = c' \<Longrightarrow>
   length (docs c') = 5 \<and> sensor_level (docs c' ! 2) = PFloat (91 / 10) \<and>
   sensor_status (docs c' ! 2) = PStr ''warning'' \<and>
   dict_get (docs c' ! 2) ''location'' PNone = PStr ''Mediterranean Sea''"
  apply (simp add: initialize_sample_data_def count_documents_def store_sensor_data_def
      sample_sensors_def sample_rows_def enumerate_eq_zip upt_rec Let_def
      insert_one_def dict_set_def dict_has_def doc_key_def dict_get_def keys_of_def
      sensor_level_def sensor_status_def split: prod.splits)
  by auto

text \<open>
  Claim C7 on the code. \<open>initialize_sample_data\<close> on an empty collection stores the
  reading of the Mediterranean Sea with the level 9.1 and the status written in the
  source, warning, where the threshold rule of \<open>seed_db\<close> gives critical for 9.1. The
  alert that \<open>api_ai_alerts\<close> builds for this reading does carry the severity high.
\<close>

theorem sample_mediterranean_status:
  "sensor_level (sample_sensors stamp ! 2) = PFloat (91 / 10) \<and>
   dict_get (sample_sensors stamp ! 2) ''location'' PNone = PStr ''Mediterranean Sea'' \<and>
   sensor_status (sample_sensors stamp ! 2) = PStr ''warning'' \<and>
   sensor_status
     (docs (snd (initialize_sample_data None stamp clock (\<lambda>i. None) \<lparr>docs = [], next_oid = 0\<rparr>)) ! 2)
     = PStr ''warning'' \<and>
   derive_status (91 / 10) = ''critical'' \<and>
   (\<exists>a. alerts_loop L now [sample_sensors stamp ! 2] = Inr [PDict a] \<and>
        dict_get a ''severity'' PNone = PStr ''high'')"
  using initialize_sample_data_stored [OF refl, of stamp clock]
  by (simp add: sample_third sensor_level_def sensor_status_def dict_get_def derive_status_def
      bind_err_def dict_item_def py_gt_def Let_def)

subsection \<open>Submitting a report without an image\<close>






lemma submit_report_bad_level:
  "level_field L req = None \<Longrightarrow>
   submit_report L A U now fault req reports = (Errored ValueError, reports)"
  by (simp add: submit_report_def)



end
